theory Spec2Isabelle
  imports Main
begin

section \<open>The drag-and-drop layer of MahjongUtils\<close>

text \<open>
  A shallow embedding of \<^verbatim>\<open>MahjongUtils.getEventCoordinates\<close>,
  \<^verbatim>\<open>getElementFromPoint\<close>, \<^verbatim>\<open>setupDragAndDrop\<close> (with the listeners it
  creates) and \<^verbatim>\<open>removeDragAndDrop\<close>.

  The closure variables of \<^verbatim>\<open>setupDragAndDrop\<close> are a record \<open>session\<close>; every
  listener takes the session and the world (the page and a log of what was dispatched) and
  returns how it completed together with the session and world it leaves behind. A listener
  that throws leaves the state exactly as it was at the throw, as JavaScript does.

  The browser is part of the model as far as the listeners use it: hit testing
  (\<^verbatim>\<open>document.elementFromPoint\<close>) over the boxes the cascade leaves, the inline
  \<^verbatim>\<open>display\<close> declaration with its priority, \<^verbatim>\<open>closest\<close>, the properties a
  plain object inherits, and the listener list of \<^verbatim>\<open>document\<close>. The caller's handlers are arbitrary functions that may change the
  page, call \<^verbatim>\<open>setData\<close> on the drag-start object while they run, and throw; they
  do not call \<^verbatim>\<open>setupDragAndDrop\<close> or \<^verbatim>\<open>removeDragAndDrop\<close> themselves.
  Payload keys and payload values are strings.
\<close>

subsection \<open>JavaScript values and truthiness\<close>

text \<open>\<open>Obj\<close> is an object or a function, by name.\<close>

datatype jsval = Undefined | Null | Str string | Num int | Bool bool | Obj string

text \<open>
  \<^verbatim>\<open>undefined\<close>, \<^verbatim>\<open>null\<close>, the empty string, zero and \<^verbatim>\<open>false\<close> are
  falsy; every object and function is truthy.
\<close>

fun truthy :: "jsval \<Rightarrow> bool" where
  "truthy Undefined = False"
| "truthy Null = False"
| "truthy (Str s) = (s \<noteq> [])"
| "truthy (Num n) = (n \<noteq> 0)"
| "truthy (Bool b) = b"
| "truthy (Obj n) = True"

text \<open>\<^verbatim>\<open>a || b\<close>\<close>

definition js_or :: "jsval \<Rightarrow> jsval \<Rightarrow> jsval" where
  "js_or a b = (if truthy a then a else b)"

text \<open>Reading a property that may be absent: \<^verbatim>\<open>undefined\<close> when it is.\<close>

definition js_prop :: "string option \<Rightarrow> jsval" where
  "js_prop v = (case v of None \<Rightarrow> Undefined | Some s \<Rightarrow> Str s)"

text \<open>
  \<^verbatim>\<open>obj[key]\<close> on a plain object with string values: its own property, else what it
  inherits from \<^verbatim>\<open>Object.prototype\<close> (\<^verbatim>\<open>undefined\<close> when that has no such
  property either).
\<close>

definition getProperty :: "(string \<Rightarrow> jsval) \<Rightarrow> (string \<rightharpoonup> string) \<Rightarrow> string \<Rightarrow> jsval" where
  "getProperty proto obj key = (case obj key of Some v \<Rightarrow> Str v | None \<Rightarrow> proto key)"

text \<open>The built-in \<^verbatim>\<open>Object.prototype\<close>: functions, and the accessor \<^verbatim>\<open>__proto__\<close>.\<close>

definition standardPrototype :: "string \<Rightarrow> jsval" where
  "standardPrototype key =
     (if key \<in> set [''constructor'', ''hasOwnProperty'', ''isPrototypeOf'',
          ''propertyIsEnumerable'', ''toLocaleString'', ''toString'', ''valueOf'',
          ''__defineGetter__'', ''__defineSetter__'', ''__lookupGetter__'',
          ''__lookupSetter__'', ''__proto__'']
      then Obj key else Undefined)"

text \<open>ASCII lower case, for the selectors that compare without regard to case.\<close>

definition asciiLower :: "string \<Rightarrow> string" where
  "asciiLower s =
     map (\<lambda>c. case map_of (zip ''ABCDEFGHIJKLMNOPQRSTUVWXYZ'' ''abcdefghijklmnopqrstuvwxyz'') c of
                 Some l \<Rightarrow> l
               | None \<Rightarrow> c) s"

subsection \<open>Elements\<close>

text \<open>
  An element carries what the listeners read: its identity \<open>eid\<close> (JavaScript compares
  references; no two elements of a page share it), \<^verbatim>\<open>tagName\<close>, which the listeners
  compare, and \<^verbatim>\<open>localName\<close>, which selectors match (an \<^verbatim>\<open>a\<close> element of a
  page reports the tag name \<^verbatim>\<open>A\<close>, an \<^verbatim>\<open>a\<close> element of an SVG image inside it
  the tag name \<^verbatim>\<open>a\<close>; both have the local name \<^verbatim>\<open>a\<close>), the
  \<^verbatim>\<open>draggable\<close> flag, \<^verbatim>\<open>classList\<close>, \<^verbatim>\<open>dataset.tileId\<close>
  (absent when the element has no \<^verbatim>\<open>data-tile-id\<close> attribute), the
  \<^verbatim>\<open>data-drag-enabled\<close> attribute and its parent. These do not change during a
  session; the inline display declaration, which \<^verbatim>\<open>getElementFromPoint\<close> writes, is
  kept in the page, by element identity.
\<close>

datatype element =
  Element (eid: nat) (tagName: string) (localName: string) (draggable: bool)
    (classList: "string list")
    (tileId: "string option") (dragEnabled: "string option") (parentElement: "element option")

text \<open>\<^verbatim>\<open>e.closest(selector)\<close>: the element itself or its nearest ancestor that matches.\<close>

fun closest :: "(element \<Rightarrow> bool) \<Rightarrow> element \<Rightarrow> element option" where
  "closest sel (Element i tg ln dr cl ti de par) =
     (if sel (Element i tg ln dr cl ti de par) then Some (Element i tg ln dr cl ti de par)
      else case par of None \<Rightarrow> None | Some p \<Rightarrow> closest sel p)"

text \<open>
  The selector \<^verbatim>\<open>'button, a, input'\<close>: a type selector matches the local name of an
  element, in whatever namespace.
\<close>

definition sel_interactive :: "element \<Rightarrow> bool" where
  "sel_interactive e =
     (localName e = ''button'' \<or> localName e = ''a'' \<or> localName e = ''input'')"

text \<open>
  The selector \<^verbatim>\<open>'.mahjong-tile, [data-drag-enabled="true"]'\<close>. In a document in
  quirks mode a class selector matches without regard to ASCII case.
\<close>

definition sel_tile :: "bool \<Rightarrow> element \<Rightarrow> bool" where
  "sel_tile quirks e =
     ((if quirks then ''mahjong-tile'' \<in> asciiLower ` set (classList e)
       else ''mahjong-tile'' \<in> set (classList e))
      \<or> dragEnabled e = Some ''true'')"

subsection \<open>The page and hit testing\<close>

record box =
  bleft :: int
  btop :: int
  bwidth :: int
  bheight :: int

text \<open>
  The page:
  \<^item> \<open>layout\<close>: the boxes of the laid-out elements in paint order, topmost first, as
    they follow from the computed \<^verbatim>\<open>display\<close> of every element (hiding an element
    can move the others);
  \<^item> \<open>inlineDisplay\<close>: the \<^verbatim>\<open>display\<close> declaration in the \<^verbatim>\<open>style\<close>
    attribute of every element, as its value (empty when there is none) and whether it is
    \<^verbatim>\<open>!important\<close>;
  \<^item> \<open>cascade\<close>: the computed \<^verbatim>\<open>display\<close> of every element, as the style sheets,
    animations and transitions of the page determine it from the inline declarations;
  \<^item> \<open>quirksMode\<close>: the mode of the document;
  \<^item> \<open>objectPrototype\<close>: what a plain object inherits, \<^verbatim>\<open>Object.prototype\<close> as
    the scripts of the page have left it;
  \<^item> \<open>user\<close>: the state of the application the handlers belong to.
\<close>

record 'u page =
  layout :: "(nat \<Rightarrow> string) \<Rightarrow> (element \<times> box) list"
  inlineDisplay :: "nat \<Rightarrow> string \<times> bool"
  cascade :: "(nat \<Rightarrow> string \<times> bool) \<Rightarrow> nat \<Rightarrow> string"
  quirksMode :: bool
  objectPrototype :: "string \<Rightarrow> jsval"
  user :: 'u

text \<open>
  The cascade of a page whose only declarations of \<^verbatim>\<open>display\<close> are in style sheets
  of the author: an \<^verbatim>\<open>!important\<close> inline declaration wins, then an
  \<^verbatim>\<open>!important\<close> rule of a style sheet, then a normal inline declaration, then the
  normal rules.
\<close>

definition authorCascade ::
  "(nat \<Rightarrow> string option) \<Rightarrow> (nat \<Rightarrow> string) \<Rightarrow> (nat \<Rightarrow> string \<times> bool) \<Rightarrow> nat \<Rightarrow> string" where
  "authorCascade importantRule normalRule inline i =
     (if fst (inline i) \<noteq> [] \<and> snd (inline i) then fst (inline i)
      else case importantRule i of
             Some v \<Rightarrow> v
           | None \<Rightarrow> if fst (inline i) \<noteq> [] then fst (inline i) else normalRule i)"

text \<open>
  Reading \<^verbatim>\<open>e.style.display\<close> gives the value of the inline declaration. Assigning
  to it replaces the declaration by one of normal priority, and removes it when the value
  is empty.
\<close>

definition styleDisplay :: "'u page \<Rightarrow> element \<Rightarrow> string" where
  "styleDisplay p e = fst (inlineDisplay p (eid e))"

definition setStyleDisplay :: "element \<Rightarrow> string \<Rightarrow> 'u page \<Rightarrow> 'u page" where
  "setStyleDisplay e v p = p\<lparr>inlineDisplay := (inlineDisplay p)(eid e := (v, False))\<rparr>"

definition computedDisplay :: "'u page \<Rightarrow> nat \<Rightarrow> string" where
  "computedDisplay p i = cascade p (inlineDisplay p) i"

definition inside :: "box \<Rightarrow> int \<Rightarrow> int \<Rightarrow> bool" where
  "inside b x y = (bleft b \<le> x \<and> x < bleft b + bwidth b \<and> btop b \<le> y \<and> y < btop b + bheight b)"

text \<open>
  An element whose computed \<^verbatim>\<open>display\<close> is \<^verbatim>\<open>none\<close>, or that is inside such
  an element, has no box.
\<close>

fun rendered :: "(nat \<Rightarrow> string) \<Rightarrow> element \<Rightarrow> bool" where
  "rendered d (Element i tg ln dr cl ti de par) =
     (d i \<noteq> ''none'' \<and> (case par of None \<Rightarrow> True | Some p \<Rightarrow> rendered d p))"

definition hitTest :: "'u page \<Rightarrow> int \<Rightarrow> int \<Rightarrow> element option" where
  "hitTest p x y =
     map_option fst
       (find (\<lambda>(e, b). rendered (computedDisplay p) e \<and> inside b x y)
          (layout p (computedDisplay p)))"

datatype exn = TypeError | HandlerError string

text \<open>
  \<^verbatim>\<open>document.elementFromPoint(x, y)\<close>: the topmost rendered element at the point, or
  \<^verbatim>\<open>null\<close>; a \<^verbatim>\<open>TypeError\<close> when a coordinate is \<^verbatim>\<open>undefined\<close> (not a
  finite number).
\<close>

definition elementFromPoint :: "'u page \<Rightarrow> int option \<Rightarrow> int option \<Rightarrow> exn + element option" where
  "elementFromPoint p x y =
     (case x of None \<Rightarrow> Inl TypeError
      | Some a \<Rightarrow> (case y of None \<Rightarrow> Inl TypeError | Some b \<Rightarrow> Inr (hitTest p a b)))"

subsection \<open>Native events\<close>

text \<open>
  \<open>touches\<close> and \<open>changedTouches\<close> are the client coordinates of the touch points, empty
  also when the event has no such property; \<open>clientX\<close>, \<open>clientY\<close> and
  \<open>dataTransfer\<close> are absent on touch events.
\<close>

record event =
  etype :: string
  target :: element
  touches :: "(int \<times> int) list"
  changedTouches :: "(int \<times> int) list"
  clientX :: "int option"
  clientY :: "int option"
  dataTransfer :: "(string \<rightharpoonup> string) option"

text \<open>\<^verbatim>\<open>getEventCoordinates\<close> (lines 125-141).\<close>

definition getEventCoordinates :: "event \<Rightarrow> int option \<times> int option" where
  "getEventCoordinates event =
     (case touches event of
        (x, y) # _ \<Rightarrow> (Some x, Some y)
      | [] \<Rightarrow> (case changedTouches event of
                 (x, y) # _ \<Rightarrow> (Some x, Some y)
               | [] \<Rightarrow> (clientX event, clientY event)))"

text \<open>
  \<^verbatim>\<open>getElementFromPoint\<close> (lines 150-159). When the hit test throws, the excluded
  element stays hidden: the line that restores it is not reached.
\<close>

definition getElementFromPoint ::
  "int option \<Rightarrow> int option \<Rightarrow> element option \<Rightarrow> 'u page \<Rightarrow> (exn + element option) \<times> 'u page" where
  "getElementFromPoint x y excludeElement p =
     (case excludeElement of
        Some ex \<Rightarrow>
          (let originalDisplay = styleDisplay p ex;
               p1 = setStyleDisplay ex ''none'' p
           in case elementFromPoint p1 x y of
                Inl e \<Rightarrow> (Inl e, p1)
              | Inr element \<Rightarrow> (Inr element, setStyleDisplay ex originalDisplay p1))
      | None \<Rightarrow> (elementFromPoint p x y, p))"

subsection \<open>Handlers and what they are given\<close>

text \<open>
  A handler is given the native event (on the pointer paths) or an object built by the
  listener. \<open>sgetData\<close> is \<^verbatim>\<open>dataTransfer.getData\<close>, absent on the objects that have
  no \<^verbatim>\<open>dataTransfer\<close>.
\<close>

record synthetic =
  stype :: string
  starget :: "element option"
  sclientX :: "int option"
  sclientY :: "int option"
  sgetData :: "(string \<Rightarrow> jsval) option"

datatype hevent = Native event | Synthetic synthetic

fun htarget :: "hevent \<Rightarrow> element option" where
  "htarget (Native ev) = Some (target ev)"
| "htarget (Synthetic se) = starget se"

text \<open>
  What a handler does: it may change the page, it may call \<^verbatim>\<open>dataTransfer.setData\<close>
  (\<open>setDataCalls\<close>, in call order), and it returns or throws (\<open>thrown\<close>).
\<close>

record 'u hresult =
  newPage :: "'u page"
  setDataCalls :: "(string \<times> string) list"
  thrown :: "string option"

text \<open>A function object: its identity and its behaviour.\<close>

datatype 'u jsfun = JsFun (fid: nat) (call: "hevent \<Rightarrow> 'u page \<Rightarrow> 'u hresult")

record 'u handlers =
  dragStart :: "'u jsfun option"
  dragOver :: "'u jsfun option"
  dragLeave :: "'u jsfun option"
  drop_handler :: "'u jsfun option"
  dragEnd :: "'u jsfun option"

text \<open>
  The world records, besides the page, what the listeners did to the outside: which native
  events had their default action suppressed and which handlers were called with what, in
  order.
\<close>

datatype hname = HDragStart | HDragOver | HDragLeave | HDrop | HDragEnd

datatype effect = PreventDefault string | Invoked hname hevent

record 'u world =
  page :: "'u page"
  trace :: "effect list"

datatype completion = Returned | Threw exn

definition preventDefault :: "event \<Rightarrow> 'u world \<Rightarrow> 'u world" where
  "preventDefault event w = w\<lparr>trace := trace w @ [PreventDefault (etype event)]\<rparr>"

text \<open>\<^verbatim>\<open>if (handlers.h) handlers.h(ev)\<close>\<close>

definition invoke ::
  "hname \<Rightarrow> 'u jsfun option \<Rightarrow> hevent \<Rightarrow> 'u world
     \<Rightarrow> completion \<times> (string \<times> string) list \<times> 'u world" where
  "invoke n h ev w =
     (case h of
        None \<Rightarrow> (Returned, [], w)
      | Some f \<Rightarrow>
          (let r = call f ev (page w)
           in (case thrown r of None \<Rightarrow> Returned | Some m \<Rightarrow> Threw (HandlerError m),
               setDataCalls r,
               \<lparr>page = newPage r, trace = trace w @ [Invoked n ev]\<rparr>)))"

subsection \<open>The session and its listeners\<close>

record session =
  isDragging :: bool
  draggedElement :: "element option"
  currentDropTarget :: "element option"
  dragData :: "string \<rightharpoonup> string"

definition emptySession :: session where
  "emptySession =
     \<lparr>isDragging = False, draggedElement = None, currentDropTarget = None, dragData = Map.empty\<rparr>"

text \<open>The two tests of \<^verbatim>\<open>unifiedDragStart\<close> (lines 182-193).\<close>

definition isDraggableElement :: "element option \<Rightarrow> bool" where
  "isDraggableElement targetElement =
     (case targetElement of
        None \<Rightarrow> False
      | Some e \<Rightarrow> draggable e \<or> ''mahjong-tile'' \<in> set (classList e) \<or> truthy (js_prop (tileId e)))"

definition isNonDraggableInteractive :: "element option \<Rightarrow> bool" where
  "isNonDraggableInteractive targetElement =
     (case targetElement of
        None \<Rightarrow> False
      | Some e \<Rightarrow> tagName e = ''BUTTON'' \<or> tagName e = ''A'' \<or> tagName e = ''INPUT''
                 \<or> closest sel_interactive e \<noteq> None)"

text \<open>
  \<^verbatim>\<open>getData\<close> of the drag-start object, as it answers when the handler is entered:
  the native store first (which answers the empty string for a missing key), else
  \<^verbatim>\<open>dragData[type] || null\<close>.
\<close>

definition startGetData :: "(string \<Rightarrow> jsval) \<Rightarrow> event \<Rightarrow> session \<Rightarrow> string \<Rightarrow> jsval" where
  "startGetData proto event s type =
     (case dataTransfer event of
        Some native \<Rightarrow> Str (case native type of None \<Rightarrow> [] | Some v \<Rightarrow> v)
      | None \<Rightarrow> js_or (getProperty proto (dragData s) type) Null)"

text \<open>The target of a drag start: under the first touch point, or the native target.\<close>

definition startTarget :: "event \<Rightarrow> 'u page \<Rightarrow> (exn + element option) \<times> 'u page" where
  "startTarget event p =
     (if etype event = ''touchstart''
      then getElementFromPoint (fst (getEventCoordinates event)) (snd (getEventCoordinates event))
             None p
      else (Inr (Some (target event)), p))"

text \<open>
  \<^verbatim>\<open>setData\<close> of the drag-start object writes into \<^verbatim>\<open>dragData\<close>; its copy into
  the native store of the event is not part of the session. The assignment
  \<^verbatim>\<open>dragData[type] = data\<close> makes or replaces an own property, except for the key
  \<^verbatim>\<open>__proto__\<close>, whose built-in setter ignores a string.
\<close>

definition setData :: "(string \<rightharpoonup> string) \<Rightarrow> string \<times> string \<Rightarrow> (string \<rightharpoonup> string)" where
  "setData d kv = (if fst kv = ''__proto__'' then d else d(fst kv \<mapsto> snd kv))"

text \<open>\<^verbatim>\<open>unifiedDragStart\<close> (lines 176-225).\<close>

definition unifiedDragStart ::
  "'u handlers \<Rightarrow> event \<Rightarrow> session \<Rightarrow> 'u world \<Rightarrow> completion \<times> session \<times> 'u world" where
  "unifiedDragStart handlers event s w =
     (if etype event = ''dragstart'' \<or> etype event = ''touchstart'' then
        (case startTarget event (page w) of
           (Inl e, p) \<Rightarrow> (Threw e, s, w\<lparr>page := p\<rparr>)
         | (Inr targetElement, p) \<Rightarrow>
             if \<not> isDraggableElement targetElement \<or> isNonDraggableInteractive targetElement
             then (Returned, s, w\<lparr>page := p\<rparr>)
             else
               (let s1 = s\<lparr>isDragging := True, draggedElement := targetElement,
                           dragData := Map.empty\<rparr>;
                    syntheticEvent = Synthetic
                      \<lparr>stype = ''dragstart'', starget = draggedElement s1,
                       sclientX = None, sclientY = None,
                       sgetData = Some (startGetData (objectPrototype p) event s1)\<rparr>
                in case invoke HDragStart (dragStart handlers) syntheticEvent (w\<lparr>page := p\<rparr>) of
                     (c, sets, w1) \<Rightarrow> (c, s1\<lparr>dragData := foldl setData Map.empty sets\<rparr>, w1)))
      else (Returned, s, w))"

text \<open>\<^verbatim>\<open>unifiedDragOver\<close> (lines 227-257).\<close>

definition unifiedDragOver ::
  "'u handlers \<Rightarrow> event \<Rightarrow> session \<Rightarrow> 'u world \<Rightarrow> completion \<times> session \<times> 'u world" where
  "unifiedDragOver handlers event s w =
     (if etype event = ''dragover'' \<or> (etype event = ''touchmove'' \<and> isDragging s) then
        (let w0 = preventDefault event w in
         if etype event = ''touchmove'' then
           (let coords = getEventCoordinates event in
            case getElementFromPoint (fst coords) (snd coords) (draggedElement s) (page w0) of
              (Inl e, p) \<Rightarrow> (Threw e, s, w0\<lparr>page := p\<rparr>)
            | (Inr elementBelow, p) \<Rightarrow>
                if elementBelow \<noteq> currentDropTarget s then
                  (case (if currentDropTarget s \<noteq> None
                         then invoke HDragLeave (dragLeave handlers)
                                (Synthetic \<lparr>stype = ''dragleave'', starget = currentDropTarget s,
                                   sclientX = None, sclientY = None, sgetData = None\<rparr>)
                                (w0\<lparr>page := p\<rparr>)
                         else (Returned, [], w0\<lparr>page := p\<rparr>)) of
                     (Threw e, _, w1) \<Rightarrow> (Threw e, s, w1)
                   | (Returned, _, w1) \<Rightarrow>
                       (let s1 = s\<lparr>currentDropTarget := elementBelow\<rparr> in
                        case (if currentDropTarget s1 \<noteq> None
                              then invoke HDragOver (dragOver handlers)
                                     (Synthetic \<lparr>stype = ''dragover'', starget = currentDropTarget s1,
                                        sclientX = fst coords, sclientY = snd coords,
                                        sgetData = None\<rparr>)
                                     w1
                              else (Returned, [], w1)) of
                          (c, _, w2) \<Rightarrow> (c, s1, w2)))
                else (Returned, s, w0\<lparr>page := p\<rparr>))
         else (case invoke HDragOver (dragOver handlers) (Native event) w0 of
                 (c, _, w1) \<Rightarrow> (c, s, w1)))
      else (Returned, s, w))"

text \<open>
  \<^verbatim>\<open>getData\<close> of the drop object built on touch end:
  \<^verbatim>\<open>dragData[type] || (draggedElement ? draggedElement.dataset.tileId : null)\<close>.
\<close>

definition dropGetData :: "(string \<Rightarrow> jsval) \<Rightarrow> session \<Rightarrow> string \<Rightarrow> jsval" where
  "dropGetData proto s type =
     js_or (getProperty proto (dragData s) type)
       (case draggedElement s of Some d \<Rightarrow> js_prop (tileId d) | None \<Rightarrow> Null)"

definition dropEvent ::
  "(string \<Rightarrow> jsval) \<Rightarrow> session \<Rightarrow> element option \<Rightarrow> int option \<times> int option \<Rightarrow> hevent" where
  "dropEvent proto s dropTarget coords =
     Synthetic \<lparr>stype = ''drop'', starget = dropTarget, sclientX = fst coords,
       sclientY = snd coords, sgetData = Some (dropGetData proto s)\<rparr>"

text \<open>\<^verbatim>\<open>touchEndHandler\<close> (lines 259-293), registered for touch end and touch cancel.\<close>

definition touchEndHandler ::
  "'u handlers \<Rightarrow> event \<Rightarrow> session \<Rightarrow> 'u world \<Rightarrow> completion \<times> session \<times> 'u world" where
  "touchEndHandler handlers event s w =
     (if \<not> isDragging s then (Returned, s, w)
      else
        (let w0 = preventDefault event w;
             coords = getEventCoordinates event
         in case getElementFromPoint (fst coords) (snd coords) (draggedElement s) (page w0) of
              (Inl e, p) \<Rightarrow> (Threw e, s, w0\<lparr>page := p\<rparr>)
            | (Inr dropTarget, p) \<Rightarrow>
                (case (if dropTarget \<noteq> None
                       then invoke HDrop (drop_handler handlers)
                              (dropEvent (objectPrototype p) s dropTarget coords)
                              (w0\<lparr>page := p\<rparr>)
                       else (Returned, [], w0\<lparr>page := p\<rparr>)) of
                   (Threw e, _, w1) \<Rightarrow> (Threw e, s, w1)
                 | (Returned, _, w1) \<Rightarrow>
                     (case invoke HDragEnd (dragEnd handlers)
                             (Synthetic \<lparr>stype = ''dragend'', starget = draggedElement s,
                                sclientX = None, sclientY = None, sgetData = None\<rparr>)
                             w1 of
                        (Threw e, _, w2) \<Rightarrow> (Threw e, s, w2)
                      | (Returned, _, w2) \<Rightarrow>
                          (Returned,
                           s\<lparr>isDragging := False, draggedElement := None,
                             currentDropTarget := None, dragData := Map.empty\<rparr>,
                           w2)))))"

text \<open>\<^verbatim>\<open>mouseDropHandler\<close> (lines 295-300) and \<^verbatim>\<open>mouseDragEndHandler\<close> (lines 302-309).\<close>

definition mouseDropHandler ::
  "'u handlers \<Rightarrow> event \<Rightarrow> session \<Rightarrow> 'u world \<Rightarrow> completion \<times> session \<times> 'u world" where
  "mouseDropHandler handlers event s w =
     (case invoke HDrop (drop_handler handlers) (Native event) (preventDefault event w) of
        (c, _, w1) \<Rightarrow> (c, s, w1))"

definition mouseDragEndHandler ::
  "'u handlers \<Rightarrow> event \<Rightarrow> session \<Rightarrow> 'u world \<Rightarrow> completion \<times> session \<times> 'u world" where
  "mouseDragEndHandler handlers event s w =
     (case invoke HDragEnd (dragEnd handlers) (Native event) w of
        (Threw e, _, w1) \<Rightarrow> (Threw e, s, w1)
      | (Returned, _, w1) \<Rightarrow>
          (Returned,
           s\<lparr>isDragging := False, draggedElement := None, currentDropTarget := None\<rparr>,
           w1))"

text \<open>\<^verbatim>\<open>touchStartHandler\<close> (lines 311-317).\<close>

definition touchStartHandler ::
  "'u handlers \<Rightarrow> event \<Rightarrow> session \<Rightarrow> 'u world \<Rightarrow> completion \<times> session \<times> 'u world" where
  "touchStartHandler handlers event s w =
     (case closest (sel_tile (quirksMode (page w))) (target event) of
        Some parentTile \<Rightarrow> unifiedDragStart handlers event s w
      | None \<Rightarrow> (Returned, s, w))"

subsection \<open>Dispatch of native events to the listeners\<close>

text \<open>
  The listener that \<^verbatim>\<open>setupDragAndDrop\<close> registers for each event type;
  \<^verbatim>\<open>handlers.dragLeave\<close> is registered as it is, so that it is given the native
  event. \<open>run\<close> delivers a sequence of events one after the other: an exception of a
  listener is reported by the browser and the next event finds the state as it was left.
\<close>

definition dispatch ::
  "'u handlers \<Rightarrow> event \<Rightarrow> session \<Rightarrow> 'u world \<Rightarrow> completion \<times> session \<times> 'u world" where
  "dispatch handlers event s w =
     (if etype event = ''dragstart'' then unifiedDragStart handlers event s w
      else if etype event = ''dragover'' then unifiedDragOver handlers event s w
      else if etype event = ''dragleave'' then
        (case invoke HDragLeave (dragLeave handlers) (Native event) w of (c, _, w1) \<Rightarrow> (c, s, w1))
      else if etype event = ''drop'' then mouseDropHandler handlers event s w
      else if etype event = ''dragend'' then mouseDragEndHandler handlers event s w
      else if etype event = ''touchstart'' then touchStartHandler handlers event s w
      else if etype event = ''touchmove'' then unifiedDragOver handlers event s w
      else if etype event = ''touchend'' then touchEndHandler handlers event s w
      else if etype event = ''touchcancel'' then touchEndHandler handlers event s w
      else (Returned, s, w))"

fun run :: "'u handlers \<Rightarrow> event list \<Rightarrow> session \<Rightarrow> 'u world \<Rightarrow> session \<times> 'u world" where
  "run handlers [] s w = (s, w)"
| "run handlers (event # events) s w =
     (case dispatch handlers event s w of (c, s1, w1) \<Rightarrow> run handlers events s1 w1)"

text \<open>The effects a listener added to the log.\<close>

definition newEffects :: "'u world \<Rightarrow> 'u world \<Rightarrow> effect list" where
  "newEffects w w' = drop (length (trace w)) (trace w')"

fun isOver :: "effect \<Rightarrow> bool" where
  "isOver (Invoked HDragOver ev) = True"
| "isOver _ = False"

fun isInvoked :: "effect \<Rightarrow> bool" where
  "isInvoked (Invoked h ev) = True"
| "isInvoked (PreventDefault t) = False"

definition overCalls :: "effect list \<Rightarrow> nat" where
  "overCalls tr = length (filter isOver tr)"

fun dropCalls :: "effect list \<Rightarrow> hevent list" where
  "dropCalls [] = []"
| "dropCalls (Invoked HDrop ev # tr) = ev # dropCalls tr"
| "dropCalls (_ # tr) = dropCalls tr"

text \<open>A handler of the given kind was given an object whose target is \<open>d\<close>.\<close>

fun reportsTarget :: "hname \<Rightarrow> element \<Rightarrow> effect \<Rightarrow> bool" where
  "reportsTarget n d (Invoked m ev) = (m = n \<and> htarget ev = Some d)"
| "reportsTarget n d (PreventDefault t) = False"

text \<open>
  A session is consistent when it has a dragged element exactly while it is active, and no
  drop target while it is not.
\<close>

definition consistent :: "session \<Rightarrow> bool" where
  "consistent s =
     (if isDragging s then draggedElement s \<noteq> None
      else draggedElement s = None \<and> currentDropTarget s = None)"

text \<open>
  The element a touch move or a touch end resolves to under the touch point, in a given
  session and page.
\<close>

definition moveTarget :: "event \<Rightarrow> session \<Rightarrow> 'u page \<Rightarrow> exn + element option" where
  "moveTarget event s p =
     fst (getElementFromPoint (fst (getEventCoordinates event)) (snd (getEventCoordinates event))
            (draggedElement s) p)"

text \<open>
  The page a hit test that returns leaves behind: the inline display declaration of the
  excluded element has been written back through \<^verbatim>\<open>style.display\<close>.
\<close>

definition afterHitTest :: "element option \<Rightarrow> 'u page \<Rightarrow> 'u page" where
  "afterHitTest excludeElement p =
     (case excludeElement of
        None \<Rightarrow> p
      | Some ex \<Rightarrow> setStyleDisplay ex (styleDisplay p ex) p)"

text \<open>
  Hiding works on an element when an inline \<^verbatim>\<open>display: none\<close> of normal priority
  makes its computed display \<^verbatim>\<open>none\<close>: nothing of the page (an \<^verbatim>\<open>!important\<close>
  rule of a style sheet, an animation, a transition) keeps it displayed.
\<close>

definition hidingWorks :: "'u page \<Rightarrow> element \<Rightarrow> bool" where
  "hidingWorks p e = (computedDisplay (setStyleDisplay e ''none'' p) (eid e) = ''none'')"

text \<open>
  Every event of the sequence is a touch move that resolves to \<open>z\<close> in the state it is
  delivered in.
\<close>

fun movesTo ::
  "element option \<Rightarrow> 'u handlers \<Rightarrow> event list \<Rightarrow> session \<Rightarrow> 'u world \<Rightarrow> bool" where
  "movesTo z handlers [] s w = True"
| "movesTo z handlers (event # events) s w =
     (etype event = ''touchmove'' \<and> moveTarget event s (page w) = Inr z \<and>
      (case unifiedDragOver handlers event s w of (c, s1, w1) \<Rightarrow> movesTo z handlers events s1 w1))"

subsection \<open>Registration\<close>

text \<open>
  The listeners of \<^verbatim>\<open>document\<close> are a list of event type and callback. The six
  functions a call of \<^verbatim>\<open>setupDragAndDrop\<close> creates are new objects each time:
  \<open>Closure n r\<close> is the function of role \<open>r\<close> created by the \<open>n\<close>-th call. All
  registrations are in the bubbling phase (the options carry \<^verbatim>\<open>passive\<close> only), so
  type and callback identify a listener.
\<close>

datatype role =
  UnifiedDragStart | UnifiedDragOver | MouseDropHandler | MouseDragEndHandler
  | TouchEndHandler | TouchStartHandler

datatype callback = Closure nat role | UserFunction nat

type_synonym listener = "string \<times> callback"

text \<open>Adding a listener that is already in the list does nothing.\<close>

definition addEventListener :: "listener list \<Rightarrow> listener \<Rightarrow> listener list" where
  "addEventListener ls l = (if l \<in> set ls then ls else ls @ [l])"

definition removeEventListener :: "listener list \<Rightarrow> listener \<Rightarrow> listener list" where
  "removeEventListener ls l = removeAll l ls"

text \<open>
  \<open>dragHandlers\<close> is \<^verbatim>\<open>MahjongUtils._dragHandlers\<close>: the closures of one call (by
  its number) and \<^verbatim>\<open>originalHandlers\<close>. \<open>allocated\<close> counts the calls of
  \<^verbatim>\<open>setupDragAndDrop\<close> so far.
\<close>

record 'u registry =
  listeners :: "listener list"
  dragHandlers :: "(nat \<times> 'u handlers) option"
  allocated :: nat

definition emptyRegistry :: "'u registry" where
  "emptyRegistry = \<lparr>listeners = [], dragHandlers = None, allocated = 0\<rparr>"

text \<open>
  The registrations of \<^verbatim>\<open>setupDragAndDrop\<close> in source order, which are also the
  removals of \<^verbatim>\<open>removeDragAndDrop\<close>.
\<close>

definition registrations :: "'u handlers \<Rightarrow> nat \<Rightarrow> listener list" where
  "registrations handlers n =
     [(''dragstart'', Closure n UnifiedDragStart),
      (''dragover'', Closure n UnifiedDragOver)]
     @ (case dragLeave handlers of
          Some f \<Rightarrow> [(''dragleave'', UserFunction (fid f))]
        | None \<Rightarrow> [])
     @ [(''drop'', Closure n MouseDropHandler),
        (''dragend'', Closure n MouseDragEndHandler),
        (''touchstart'', Closure n TouchStartHandler),
        (''touchmove'', Closure n UnifiedDragOver),
        (''touchend'', Closure n TouchEndHandler),
        (''touchcancel'', Closure n TouchEndHandler)]"

text \<open>\<^verbatim>\<open>setupDragAndDrop\<close> (lines 320-342) and \<^verbatim>\<open>removeDragAndDrop\<close> (lines 348-367).\<close>

definition setupDragAndDrop :: "'u handlers \<Rightarrow> 'u registry \<Rightarrow> 'u registry" where
  "setupDragAndDrop handlers g =
     \<lparr>listeners = foldl addEventListener (listeners g) (registrations handlers (allocated g)),
      dragHandlers = Some (allocated g, handlers),
      allocated = Suc (allocated g)\<rparr>"

definition removeDragAndDrop :: "'u registry \<Rightarrow> 'u registry" where
  "removeDragAndDrop g =
     (case dragHandlers g of
        Some (n, originalHandlers) \<Rightarrow>
          g\<lparr>listeners := foldl removeEventListener (listeners g) (registrations originalHandlers n),
            dragHandlers := None\<rparr>
      | None \<Rightarrow> g)"



subsection \<open>A page, handlers and events to run the listeners on\<close>

definition tile0 :: element where
  "tile0 = Element 1 ''DIV'' ''div'' True [''mahjong-tile''] (Some ''0-3'') None None"

definition zone0 :: element where
  "zone0 = Element 2 ''DIV'' ''div'' False [''drop-zone''] None None None"

definition idOnly0 :: element where
  "idOnly0 = Element 3 ''DIV'' ''div'' False [] (Some ''0-3'') None None"

definition emptyId0 :: element where
  "emptyId0 = Element 4 ''DIV'' ''div'' False [] (Some []) None None"

definition button0 :: element where
  "button0 = Element 5 ''BUTTON'' ''button'' False [] (Some ''0-3'') None None"

text \<open>A link inside an SVG image, with a tile identifier, and a shape inside the link.\<close>

definition svgLink0 :: element where
  "svgLink0 = Element 6 ''a'' ''a'' False [] (Some ''0-3'') None None"

definition svgShape0 :: element where
  "svgShape0 = Element 7 ''rect'' ''rect'' False [] (Some ''0-4'') None (Some svgLink0)"

definition page0 :: "unit page" where
  "page0 =
     \<lparr>layout = (\<lambda>d. [(tile0, \<lparr>bleft = 0, btop = 0, bwidth = 10, bheight = 10\<rparr>),
                     (zone0, \<lparr>bleft = 0, btop = 0, bwidth = 100, bheight = 100\<rparr>)]),
      inlineDisplay = (\<lambda>i. ([], False)),
      cascade = authorCascade (\<lambda>i. None) (\<lambda>i. ''block''),
      quirksMode = False, objectPrototype = standardPrototype, user = ()\<rparr>"

text \<open>
  The same page with a style sheet rule \<^verbatim>\<open>display: block !important\<close> that matches
  the tile.
\<close>

definition pageForced :: "unit page" where
  "pageForced = page0\<lparr>cascade := authorCascade ((\<lambda>i. None)(1 \<mapsto> ''block'')) (\<lambda>i. ''block'')\<rparr>"

text \<open>
  The same page where the tile has the inline style \<^verbatim>\<open>display: block !important\<close>
  and a style sheet rule \<^verbatim>\<open>display: none !important\<close> matches it.
\<close>

definition pageImportant :: "unit page" where
  "pageImportant =
     page0\<lparr>inlineDisplay := (\<lambda>i. ([], False))(1 := (''block'', True)),
           cascade := authorCascade ((\<lambda>i. None)(1 \<mapsto> ''none'')) (\<lambda>i. ''block'')\<rparr>"

definition world0 :: "unit world" where
  "world0 = \<lparr>page = page0, trace = []\<rparr>"

definition quiet :: "unit jsfun" where
  "quiet = JsFun 0 (\<lambda>ev p. \<lparr>newPage = p, setDataCalls = [], thrown = None\<rparr>)"

definition setter :: "string \<Rightarrow> unit jsfun" where
  "setter v = JsFun 1 (\<lambda>ev p. \<lparr>newPage = p, setDataCalls = [(''text/plain'', v)], thrown = None\<rparr>)"

definition thrower :: "unit jsfun" where
  "thrower = JsFun 2 (\<lambda>ev p. \<lparr>newPage = p, setDataCalls = [], thrown = Some ''boom''\<rparr>)"

definition handlers0 :: "unit handlers" where
  "handlers0 =
     \<lparr>dragStart = Some (setter ''0-3''), dragOver = Some quiet, dragLeave = Some quiet,
      drop_handler = Some quiet, dragEnd = Some quiet\<rparr>"

definition touchEvent :: "string \<Rightarrow> element \<Rightarrow> int \<Rightarrow> int \<Rightarrow> event" where
  "touchEvent t e x y =
     \<lparr>etype = t, target = e,
      touches = (if t = ''touchend'' \<or> t = ''touchcancel'' then [] else [(x, y)]),
      changedTouches = [(x, y)], clientX = None, clientY = None, dataTransfer = None\<rparr>"

definition pointerEvent :: "string \<Rightarrow> element \<Rightarrow> int \<Rightarrow> int \<Rightarrow> event" where
  "pointerEvent t e x y =
     \<lparr>etype = t, target = e, touches = [], changedTouches = [],
      clientX = Some x, clientY = Some y, dataTransfer = Some Map.empty\<rparr>"

text \<open>The session after a touch start on \<open>tile0\<close>.\<close>

definition started0 :: session where
  "started0 =
     \<lparr>isDragging = True, draggedElement = Some tile0, currentDropTarget = None,
      dragData = [''text/plain'' \<mapsto> ''0-3'']\<rparr>"

text \<open>The session after a touch start on \<open>tile0\<close> and a move over \<open>zone0\<close>.\<close>

definition dragging0 :: session where
  "dragging0 =
     \<lparr>isDragging = True, draggedElement = Some tile0, currentDropTarget = Some zone0,
      dragData = [''text/plain'' \<mapsto> ''0-3'']\<rparr>"

text \<open>The same session with a payload that differs from the tile identifier.\<close>

definition carrying0 :: session where
  "carrying0 =
     \<lparr>isDragging = True, draggedElement = Some tile0, currentDropTarget = Some zone0,
      dragData = [''text/plain'' \<mapsto> ''B5'']\<rparr>"

text \<open>The world after them: the start handler and the over handler have been called.\<close>

definition world1 :: "unit world" where
  "world1 =
     \<lparr>page = page0,
      trace =
        [Invoked HDragStart
           (Synthetic \<lparr>stype = ''dragstart'', starget = Some tile0, sclientX = None,
              sclientY = None,
              sgetData = Some (startGetData standardPrototype
                (touchEvent ''touchstart'' tile0 5 5)
                \<lparr>isDragging = True, draggedElement = Some tile0, currentDropTarget = None,
                 dragData = Map.empty\<rparr>)\<rparr>),
         PreventDefault ''touchmove'',
         Invoked HDragOver
           (Synthetic \<lparr>stype = ''dragover'', starget = Some zone0, sclientX = Some 50,
              sclientY = Some 50, sgetData = None\<rparr>)]\<rparr>"

section \<open>Properties\<close>

subsection \<open>Hit testing with an excluded element\<close>

lemma getElementFromPoint_returns:
  "getElementFromPoint (Some a) (Some b) excludeElement p =
     (Inr (case excludeElement of
             None \<Rightarrow> hitTest p a b
           | Some ex \<Rightarrow> hitTest (setStyleDisplay ex ''none'' p) a b),
      afterHitTest excludeElement p)"
  by (simp add: getElementFromPoint_def Let_def elementFromPoint_def afterHitTest_def
      setStyleDisplay_def styleDisplay_def split: option.splits)

lemma getElementFromPoint_after:
  "getElementFromPoint x y excludeElement p = (Inr r, p') \<Longrightarrow> p' = afterHitTest excludeElement p"
  by (auto simp: getElementFromPoint_def Let_def elementFromPoint_def afterHitTest_def
      setStyleDisplay_def styleDisplay_def split: option.splits sum.splits)

text \<open>
  Writing the value back restores the page when the declaration was not
  \<^verbatim>\<open>!important\<close>.
\<close>

lemma afterHitTest_normal:
  "\<not> snd (inlineDisplay p (eid ex)) \<Longrightarrow> afterHitTest (Some ex) p = p"
proof -
  assume "\<not> snd (inlineDisplay p (eid ex))"
  then have "(inlineDisplay p)(eid ex := (fst (inlineDisplay p (eid ex)), False)) = inlineDisplay p"
    by (auto simp: fun_eq_iff prod_eq_iff)
  then show ?thesis
    by (simp add: afterHitTest_def setStyleDisplay_def styleDisplay_def)
qed

lemma afterHitTest_fields:
  "layout (afterHitTest x p) = layout p" "cascade (afterHitTest x p) = cascade p"
  "quirksMode (afterHitTest x p) = quirksMode p"
  "objectPrototype (afterHitTest x p) = objectPrototype p" "user (afterHitTest x p) = user p"
  by (simp_all add: afterHitTest_def setStyleDisplay_def split: option.splits)

lemma getElementFromPoint_at:
  "\<not> snd (inlineDisplay p (eid ex)) \<Longrightarrow>
     getElementFromPoint (Some a) (Some b) (Some ex) p =
       (Inr (hitTest (setStyleDisplay ex ''none'' p) a b), p)"
  by (simp add: getElementFromPoint_returns afterHitTest_normal)

lemma rendered_hidden: "d (eid e) = ''none'' \<Longrightarrow> \<not> rendered d e"
  by (cases e) simp

lemma hitTest_rendered: "hitTest p x y = Some e \<Longrightarrow> rendered (computedDisplay p) e"
  by (auto simp: hitTest_def find_Some_iff)

lemma hitTest_excludes:
  "hidingWorks p ex \<Longrightarrow> hitTest (setStyleDisplay ex ''none'' p) a b \<noteq> Some ex"
  using hitTest_rendered rendered_hidden unfolding hidingWorks_def by blast

lemma getElementFromPoint_excludes:
  "hidingWorks p ex \<Longrightarrow> getElementFromPoint x y (Some ex) p = (Inr r, p') \<Longrightarrow> r \<noteq> Some ex"
  by (auto simp: getElementFromPoint_def Let_def elementFromPoint_def hitTest_excludes
      split: option.splits sum.splits)

lemma moveTarget_resolved:
  assumes "moveTarget event s p = Inr z"
  shows "getElementFromPoint (fst (getEventCoordinates event)) (snd (getEventCoordinates event))
           (draggedElement s) p = (Inr z, afterHitTest (draggedElement s) p)"
proof -
  obtain r p' where g: "getElementFromPoint (fst (getEventCoordinates event))
      (snd (getEventCoordinates event)) (draggedElement s) p = (r, p')"
    by (cases "getElementFromPoint (fst (getEventCoordinates event))
      (snd (getEventCoordinates event)) (draggedElement s) p")
  with assms have "r = Inr z" by (simp add: moveTarget_def)
  with g getElementFromPoint_after show ?thesis by blast
qed

lemma moveTarget_excludes:
  "draggedElement s = Some d \<Longrightarrow> hidingWorks p d \<Longrightarrow> moveTarget event s p \<noteq> Inr (Some d)"
  using moveTarget_resolved getElementFromPoint_excludes by fastforce

subsection \<open>The effects a listener adds\<close>

lemma newEffects_append: "trace w' = trace w @ es \<Longrightarrow> newEffects w w' = es"
  by (simp add: newEffects_def)

subsection \<open>What the end listeners leave behind\<close>

lemma touchEnd_inactive:
  "\<not> isDragging s \<Longrightarrow> touchEndHandler handlers event s w = (Returned, s, w)"
  by (simp add: touchEndHandler_def)

lemma touchEnd_session:
  assumes "touchEndHandler handlers event s w = (c, s', w')" and "isDragging s"
  shows "s' = (if c = Returned then emptySession else s)"
  using assms
  by (auto simp: touchEndHandler_def Let_def emptySession_def
      split: prod.splits sum.splits completion.splits if_splits)

lemma mouseDragEnd_session:
  assumes "mouseDragEndHandler handlers event s w = (c, s', w')"
  shows "s' = (if c = Returned
               then s\<lparr>isDragging := False, draggedElement := None, currentDropTarget := None\<rparr>
               else s)"
  using assms
  by (auto simp: mouseDragEndHandler_def split: prod.splits completion.splits)

lemma mouseDrop_session:
  "mouseDropHandler handlers event s w = (c, s', w') \<Longrightarrow> s' = s"
  by (auto simp: mouseDropHandler_def split: prod.splits)

lemma unifiedDragOver_session:
  assumes "unifiedDragOver handlers event s w = (c, s', w')"
  shows "isDragging s' = isDragging s \<and> draggedElement s' = draggedElement s
       \<and> dragData s' = dragData s
       \<and> (\<not> isDragging s \<longrightarrow> s' = s)"
  using assms
  by (auto simp: unifiedDragOver_def Let_def
      split: prod.splits sum.splits completion.splits if_splits)

lemma unifiedDragStart_consistent:
  assumes "unifiedDragStart handlers event s w = (c, s', w')" and "consistent s"
  shows "consistent s'"
  using assms
  by (auto simp: unifiedDragStart_def Let_def consistent_def isDraggableElement_def
      split: prod.splits sum.splits if_splits option.splits)

lemma dispatch_consistent:
  assumes "dispatch handlers event s w = (c, s', w')" and "consistent s"
  shows "consistent s'"
proof -
  consider (start) "etype event = ''dragstart''" "unifiedDragStart handlers event s w = (c, s', w')"
    | (tstart) "etype event = ''touchstart''" "touchStartHandler handlers event s w = (c, s', w')"
    | (over) "unifiedDragOver handlers event s w = (c, s', w')"
    | (drop_) "mouseDropHandler handlers event s w = (c, s', w')"
    | (dend) "mouseDragEndHandler handlers event s w = (c, s', w')"
    | (tend) "touchEndHandler handlers event s w = (c, s', w')"
    | (same) "s' = s"
    using assms(1) by (auto simp: dispatch_def split: if_splits prod.splits)
  then show ?thesis
  proof cases
    case start
    then show ?thesis using assms(2) unifiedDragStart_consistent by blast
  next
    case tstart
    then show ?thesis using assms(2) unifiedDragStart_consistent
      by (auto simp: touchStartHandler_def split: option.splits)
  next
    case over
    from unifiedDragOver_session [OF over] assms(2) show ?thesis
      by (auto simp: consistent_def split: if_splits)
  next
    case drop_
    then show ?thesis using assms(2) mouseDrop_session by blast
  next
    case dend
    from mouseDragEnd_session [OF dend] assms(2) show ?thesis
      by (auto simp: consistent_def split: if_splits)
  next
    case tend
    show ?thesis
    proof (cases "isDragging s")
      case True
      from touchEnd_session [OF tend True] assms(2) show ?thesis
        by (auto simp: consistent_def emptySession_def split: if_splits)
    next
      case False
      with tend assms(2) show ?thesis by (simp add: touchEnd_inactive)
    qed
  next
    case same
    then show ?thesis using assms(2) by simp
  qed
qed

lemma run_consistent:
  "run handlers events s w = (s', w') \<Longrightarrow> consistent s \<Longrightarrow> consistent s'"
proof (induction events arbitrary: s w)
  case Nil
  then show ?case by simp
next
  case (Cons event events)
  obtain c s1 w1 where d: "dispatch handlers event s w = (c, s1, w1)"
    by (cases "dispatch handlers event s w")
  with Cons.prems(1) have "run handlers events s1 w1 = (s', w')" by simp
  moreover from d Cons.prems(2) have "consistent s1" by (rule dispatch_consistent)
  ultimately show ?case by (rule Cons.IH)
qed

lemma consistent_empty: "consistent emptySession"
  by (simp add: consistent_def emptySession_def)

subsection \<open>The listeners on the example page\<close>

lemma page0_normal [simp]: "snd (inlineDisplay page0 i) = False"
  by (simp add: page0_def)

lemma page0_prototype [simp]: "objectPrototype page0 = standardPrototype"
  by (simp add: page0_def)

lemma page0_standards [simp]: "quirksMode page0 = False"
  by (simp add: page0_def)

lemma hitTest_page0_zone:
  "hitTest (setStyleDisplay tile0 ''none'' page0) 50 50 = Some zone0"
  by (simp add: hitTest_def inside_def page0_def tile0_def zone0_def setStyleDisplay_def
      computedDisplay_def authorCascade_def)

lemma hitTest_page0_tile: "hitTest page0 5 5 = Some tile0"
  by (simp add: hitTest_def inside_def page0_def tile0_def zone0_def computedDisplay_def
      authorCascade_def)

lemma coords_touchEvent: "getEventCoordinates (touchEvent t e x y) = (Some x, Some y)"
  by (simp add: getEventCoordinates_def touchEvent_def)

lemma etype_touchEvent: "etype (touchEvent t e x y) = t"
  by (simp add: touchEvent_def)

lemma etype_pointerEvent: "etype (pointerEvent t e x y) = t"
  by (simp add: pointerEvent_def)

lemma dragging0_simps:
  "isDragging dragging0" "draggedElement dragging0 = Some tile0"
  "currentDropTarget dragging0 = Some zone0"
  by (simp_all add: dragging0_def)

lemma page_preventDefault: "page (preventDefault ev w) = page w"
  by (simp add: preventDefault_def)

lemma touchEnd_dragging0:
  "touchEndHandler handlers0 (touchEvent ''touchend'' tile0 50 50) dragging0 world0 =
    (Returned, emptySession,
     \<lparr>page = page0,
      trace = [PreventDefault ''touchend'',
               Invoked HDrop (dropEvent standardPrototype dragging0 (Some zone0) (Some 50, Some 50)),
               Invoked HDragEnd (Synthetic \<lparr>stype = ''dragend'', starget = Some tile0,
                  sclientX = None, sclientY = None, sgetData = None\<rparr>)]\<rparr>)"
  by (simp add: touchEndHandler_def Let_def dragging0_simps page_preventDefault
      coords_touchEvent getElementFromPoint_at invoke_def handlers0_def quiet_def
      preventDefault_def world0_def hitTest_page0_zone etype_touchEvent emptySession_def)

lemma touchEnd_dragging0_thrower:
  "touchEndHandler (handlers0\<lparr>drop_handler := Some thrower\<rparr>)
      (touchEvent ''touchend'' tile0 50 50) dragging0 world0 =
    (Threw (HandlerError ''boom''), dragging0,
     \<lparr>page = page0,
      trace = [PreventDefault ''touchend'',
               Invoked HDrop (dropEvent standardPrototype dragging0 (Some zone0) (Some 50, Some 50))]\<rparr>)"
  by (simp add: touchEndHandler_def Let_def dragging0_simps page_preventDefault
      coords_touchEvent getElementFromPoint_at invoke_def handlers0_def thrower_def
      preventDefault_def world0_def hitTest_page0_zone etype_touchEvent)

lemma dragging0_not_empty: "dragging0 \<noteq> emptySession"
  by (simp add: dragging0_def emptySession_def)

subsection \<open>Touch end and exceptions\<close>

text \<open>
  C2, as amended. A touch end or touch cancel processed while a session is active clears the
  session to the empty state when the listener returns; when it throws (the drop handler,
  the drag-end handler or the hit test), the session is left as it was, still active.
\<close>

theorem touchEnd_clears_unless_thrown:
  assumes "isDragging s"
  shows "fst (snd (touchEndHandler handlers event s w)) =
           (if fst (touchEndHandler handlers event s w) = Returned then emptySession else s)"
  using touchEnd_session [OF _ assms, of handlers event w] by (metis prod.collapse)

theorem touchEnd_clears_unless_thrown_witness:
  "isDragging dragging0
   \<and> fst (snd (touchEndHandler handlers0 (touchEvent ''touchend'' tile0 50 50) dragging0 world0))
       = emptySession
   \<and> fst (snd (touchEndHandler (handlers0\<lparr>drop_handler := Some thrower\<rparr>)
                 (touchEvent ''touchend'' tile0 50 50) dragging0 world0))
       = dragging0"
  using touchEnd_clears_unless_thrown [of dragging0 handlers0 "touchEvent ''touchend'' tile0 50 50" world0]
    touchEnd_clears_unless_thrown [of dragging0 "handlers0\<lparr>drop_handler := Some thrower\<rparr>"
      "touchEvent ''touchend'' tile0 50 50" world0]
  by (simp add: dragging0_simps touchEnd_dragging0 touchEnd_dragging0_thrower)

text \<open>
  The claim as stated fails: with a drop handler that throws, the touch end leaves the
  session active.
\<close>

theorem touchEnd_throw_counterexample:
  "isDragging dragging0
   \<and> fst (touchEndHandler (handlers0\<lparr>drop_handler := Some thrower\<rparr>)
            (touchEvent ''touchend'' tile0 50 50) dragging0 world0) = Threw (HandlerError ''boom'')
   \<and> fst (snd (touchEndHandler (handlers0\<lparr>drop_handler := Some thrower\<rparr>)
                 (touchEvent ''touchend'' tile0 50 50) dragging0 world0)) \<noteq> emptySession"
  by (simp add: touchEnd_dragging0_thrower dragging0_simps dragging0_not_empty)

subsection \<open>The excluded element is restored\<close>

lemma hitTest_page0_zone_at:
  "0 \<le> x \<Longrightarrow> x < 100 \<Longrightarrow> 0 \<le> y \<Longrightarrow> y < 100 \<Longrightarrow>
     hitTest (setStyleDisplay tile0 ''none'' page0) x y = Some zone0"
  by (simp add: hitTest_def inside_def page0_def tile0_def zone0_def setStyleDisplay_def
      computedDisplay_def authorCascade_def)

lemma eid_tile0 [simp]: "eid tile0 = 1"
  by (simp add: tile0_def)

lemma pageImportant_hitTest:
  "getElementFromPoint (Some 5) (Some 5) (Some tile0) pageImportant =
     (Inr (Some zone0),
      pageImportant\<lparr>inlineDisplay := (\<lambda>i. ([], False))(1 := (''block'', False))\<rparr>)"
  by (simp add: getElementFromPoint_returns afterHitTest_def setStyleDisplay_def
      styleDisplay_def hitTest_def inside_def pageImportant_def page0_def tile0_def zone0_def
      computedDisplay_def authorCascade_def)

text \<open>
  C10, as amended. When \<^verbatim>\<open>getElementFromPoint\<close> is called with an element to exclude
  and returns, the value of the inline display of that element is what it was before the
  call, and nothing else of the page has changed, except possibly the priority of that one
  declaration; when the declaration was not \<^verbatim>\<open>!important\<close> before the call, the page
  is exactly as it was.
\<close>

theorem exclude_display_restored:
  assumes "getElementFromPoint x y (Some ex) p = (Inr r, p')"
  shows "styleDisplay p' ex = styleDisplay p ex
       \<and> (\<exists>b. p' = p\<lparr>inlineDisplay := (inlineDisplay p)(eid ex := (styleDisplay p ex, b))\<rparr>)
       \<and> (\<not> snd (inlineDisplay p (eid ex)) \<longrightarrow> p' = p)"
proof -
  from getElementFromPoint_after [OF assms]
  have a: "p' = p\<lparr>inlineDisplay := (inlineDisplay p)(eid ex := (styleDisplay p ex, False))\<rparr>"
    by (simp add: afterHitTest_def setStyleDisplay_def)
  then have "styleDisplay p' ex = styleDisplay p ex"
    by (simp add: styleDisplay_def)
  moreover from a have
    "\<exists>b. p' = p\<lparr>inlineDisplay := (inlineDisplay p)(eid ex := (styleDisplay p ex, b))\<rparr>"
    by blast
  moreover have "p' = p" if "\<not> snd (inlineDisplay p (eid ex))"
    using getElementFromPoint_after [OF assms] afterHitTest_normal [OF that] by simp
  ultimately show ?thesis by blast
qed

theorem exclude_display_restored_witness:
  "hitTest page0 5 5 = Some tile0
   \<and> getElementFromPoint (Some 5) (Some 5) (Some tile0) page0 = (Inr (Some zone0), page0)
   \<and> \<not> snd (inlineDisplay page0 (eid tile0))
   \<and> styleDisplay (snd (getElementFromPoint (Some 5) (Some 5) (Some tile0) page0)) tile0
       = styleDisplay page0 tile0
   \<and> snd (getElementFromPoint (Some 5) (Some 5) (Some tile0) page0) = page0"
proof -
  have h: "getElementFromPoint (Some 5) (Some 5) (Some tile0) page0 = (Inr (Some zone0), page0)"
    by (simp add: getElementFromPoint_at hitTest_page0_zone_at)
  from exclude_display_restored [OF h] h hitTest_page0_tile show ?thesis by simp
qed

text \<open>
  The claim as stated fails for an excluded element whose inline display is
  \<^verbatim>\<open>!important\<close>: the value is written back with normal priority. On this page a
  style sheet rule then takes over, and the element that was displayed before the call is
  not displayed after it.
\<close>

theorem important_display_counterexample:
  "fst (getElementFromPoint (Some 5) (Some 5) (Some tile0) pageImportant) = Inr (Some zone0)
   \<and> inlineDisplay pageImportant (eid tile0) = (''block'', True)
   \<and> inlineDisplay (snd (getElementFromPoint (Some 5) (Some 5) (Some tile0) pageImportant))
        (eid tile0) = (''block'', False)
   \<and> snd (getElementFromPoint (Some 5) (Some 5) (Some tile0) pageImportant) \<noteq> pageImportant
   \<and> rendered (computedDisplay pageImportant) tile0
   \<and> \<not> rendered (computedDisplay
          (snd (getElementFromPoint (Some 5) (Some 5) (Some tile0) pageImportant))) tile0"
proof -
  have "pageImportant\<lparr>inlineDisplay := (\<lambda>i. ([], False))(1 := (''block'', False))\<rparr> \<noteq> pageImportant"
  proof
    assume "pageImportant\<lparr>inlineDisplay := (\<lambda>i. ([], False))(1 := (''block'', False))\<rparr>
      = pageImportant"
    then have "inlineDisplay (pageImportant\<lparr>inlineDisplay :=
        (\<lambda>i. ([], False))(1 := (''block'', False))\<rparr>) 1 = inlineDisplay pageImportant 1"
      by simp
    then show False by (simp add: pageImportant_def)
  qed
  then show ?thesis
    unfolding pageImportant_hitTest
    by (simp add: pageImportant_def page0_def tile0_def computedDisplay_def authorCascade_def)
qed

subsection \<open>The session after the end events\<close>

lemma closest_tile0: "closest sel_interactive tile0 = None" "closest (sel_tile False) tile0 = Some tile0"
  by (simp_all add: tile0_def sel_interactive_def sel_tile_def)

lemma eligible_tile0: "isDraggableElement (Some tile0)" "\<not> isNonDraggableInteractive (Some tile0)"
  by (simp_all add: isDraggableElement_def isNonDraggableInteractive_def closest_tile0)
    (simp_all add: tile0_def)

lemma touchStart_tile0:
  "touchStartHandler handlers0 (touchEvent ''touchstart'' tile0 5 5) emptySession world0 =
     (Returned,
      \<lparr>isDragging = True, draggedElement = Some tile0, currentDropTarget = None,
       dragData = [''text/plain'' \<mapsto> ''0-3'']\<rparr>,
      \<lparr>page = page0,
       trace = [Invoked HDragStart (Synthetic \<lparr>stype = ''dragstart'', starget = Some tile0,
          sclientX = None, sclientY = None,
          sgetData = Some (startGetData standardPrototype (touchEvent ''touchstart'' tile0 5 5)
            \<lparr>isDragging = True, draggedElement = Some tile0, currentDropTarget = None,
             dragData = Map.empty\<rparr>)\<rparr>)]\<rparr>)"
proof -
  have t: "target (touchEvent ''touchstart'' tile0 5 5) = tile0"
    by (simp add: touchEvent_def)
  have st: "startTarget (touchEvent ''touchstart'' tile0 5 5) page0 = (Inr (Some tile0), page0)"
    by (simp add: startTarget_def etype_touchEvent coords_touchEvent getElementFromPoint_def
        elementFromPoint_def hitTest_page0_tile)
  show ?thesis
    by (simp add: touchStartHandler_def t closest_tile0 unifiedDragStart_def etype_touchEvent
        world0_def st eligible_tile0 Let_def invoke_def handlers0_def setter_def setData_def
        emptySession_def)
qed

lemma touchMove_zone0:
  assumes "page w = page0"
  shows "unifiedDragOver handlers0 (touchEvent ''touchmove'' tile0 50 50)
      \<lparr>isDragging = True, draggedElement = Some tile0, currentDropTarget = None,
       dragData = [''text/plain'' \<mapsto> ''0-3'']\<rparr> w =
     (Returned, dragging0,
      \<lparr>page = page0,
       trace = trace w @ [PreventDefault ''touchmove'',
          Invoked HDragOver (Synthetic \<lparr>stype = ''dragover'', starget = Some zone0,
            sclientX = Some 50, sclientY = Some 50, sgetData = None\<rparr>)]\<rparr>)"
  by (simp add: unifiedDragOver_def etype_touchEvent Let_def coords_touchEvent
      page_preventDefault assms getElementFromPoint_at hitTest_page0_zone invoke_def
      handlers0_def quiet_def preventDefault_def dragging0_def)

lemma run_touch_drag:
  "run handlers0 [touchEvent ''touchstart'' tile0 5 5, touchEvent ''touchmove'' tile0 50 50]
     emptySession world0 = (dragging0, world1)"
  by (simp add: dispatch_def etype_touchEvent touchStart_tile0 touchMove_zone0 world1_def)

lemma touchEnd_dragging0_page0:
  assumes "page w = page0"
  shows "touchEndHandler handlers0 (touchEvent ''touchend'' tile0 50 50) dragging0 w =
    (Returned, emptySession,
     \<lparr>page = page0,
      trace = trace w @ [PreventDefault ''touchend'',
               Invoked HDrop (dropEvent standardPrototype dragging0 (Some zone0) (Some 50, Some 50)),
               Invoked HDragEnd (Synthetic \<lparr>stype = ''dragend'', starget = Some tile0,
                  sclientX = None, sclientY = None, sgetData = None\<rparr>)]\<rparr>)"
  by (simp add: touchEndHandler_def Let_def dragging0_simps page_preventDefault assms
      coords_touchEvent getElementFromPoint_at invoke_def handlers0_def quiet_def
      preventDefault_def hitTest_page0_zone etype_touchEvent emptySession_def)

lemma dragStart_tile0:
  "unifiedDragStart handlers0 (pointerEvent ''dragstart'' tile0 5 5) emptySession world0 =
     (Returned,
      \<lparr>isDragging = True, draggedElement = Some tile0, currentDropTarget = None,
       dragData = [''text/plain'' \<mapsto> ''0-3'']\<rparr>,
      \<lparr>page = page0,
       trace = [Invoked HDragStart (Synthetic \<lparr>stype = ''dragstart'', starget = Some tile0,
          sclientX = None, sclientY = None,
          sgetData = Some (startGetData standardPrototype (pointerEvent ''dragstart'' tile0 5 5)
            \<lparr>isDragging = True, draggedElement = Some tile0, currentDropTarget = None,
             dragData = Map.empty\<rparr>)\<rparr>)]\<rparr>)"
proof -
  have st: "startTarget (pointerEvent ''dragstart'' tile0 5 5) page0 = (Inr (Some tile0), page0)"
    by (simp add: startTarget_def pointerEvent_def)
  show ?thesis
    by (simp add: unifiedDragStart_def etype_pointerEvent
        world0_def st eligible_tile0 Let_def invoke_def handlers0_def setter_def setData_def
        emptySession_def)
qed

lemma mouseDragEnd_quiet:
  "mouseDragEndHandler handlers0 event s w =
     (Returned, s\<lparr>isDragging := False, draggedElement := None, currentDropTarget := None\<rparr>,
      \<lparr>page = page w, trace = trace w @ [Invoked HDragEnd (Native event)]\<rparr>)"
  by (simp add: mouseDragEndHandler_def invoke_def handlers0_def quiet_def)

lemma run_pointer_drag:
  "fst (run handlers0 [pointerEvent ''dragstart'' tile0 5 5, pointerEvent ''dragend'' tile0 50 50]
     emptySession world0) =
     \<lparr>isDragging = False, draggedElement = None, currentDropTarget = None,
      dragData = [''text/plain'' \<mapsto> ''0-3'']\<rparr>"
  by (simp add: dispatch_def etype_pointerEvent dragStart_tile0 mouseDragEnd_quiet)

lemma mouseDrop_quiet:
  "mouseDropHandler handlers0 event s w =
     (Returned, s,
      \<lparr>page = page w, trace = trace w @ [PreventDefault (etype event), Invoked HDrop (Native event)]\<rparr>)"
  by (simp add: mouseDropHandler_def invoke_def handlers0_def quiet_def preventDefault_def)

text \<open>
  C1, as amended. In every session state reached from the empty session by a sequence of
  events, an inactive session has no dragged element and no drop target. After a native
  drag end, a touch end or a touch cancel whose listener returns, the session is inactive
  with no dragged element and no drop target, on both paths; after a touch end or cancel of
  an active session it is the empty session, payload included. A native drop leaves the
  session as it is.
\<close>

theorem end_events_reset_session:
  assumes "run handlers events emptySession w0 = (s, w)"
    and "etype event = ''dragend'' \<or> etype event = ''touchend'' \<or> etype event = ''touchcancel''"
    and "fst (dispatch handlers event s w) = Returned"
  shows "(\<not> isDragging s \<longrightarrow> draggedElement s = None \<and> currentDropTarget s = None)
       \<and> \<not> isDragging (fst (snd (dispatch handlers event s w)))
       \<and> draggedElement (fst (snd (dispatch handlers event s w))) = None
       \<and> currentDropTarget (fst (snd (dispatch handlers event s w))) = None
       \<and> (isDragging s \<and> etype event \<noteq> ''dragend''
            \<longrightarrow> fst (snd (dispatch handlers event s w)) = emptySession)
       \<and> fst (snd (mouseDropHandler handlers native s w)) = s"
proof -
  have md: "fst (snd (mouseDropHandler handlers native s w)) = s"
    using mouseDrop_session [of handlers native s w] by (metis prod.collapse)
  obtain c s' w' where d: "dispatch handlers event s w = (c, s', w')"
    by (cases "dispatch handlers event s w")
  with assms(3) have c: "c = Returned" by simp
  from run_consistent [OF assms(1) consistent_empty] have cs: "consistent s" .
  have "\<not> isDragging s' \<and> draggedElement s' = None \<and> currentDropTarget s' = None
       \<and> (isDragging s \<and> etype event \<noteq> ''dragend'' \<longrightarrow> s' = emptySession)"
  proof (cases "etype event = ''dragend''")
    case True
    with d have "mouseDragEndHandler handlers event s w = (c, s', w')"
      by (simp add: dispatch_def)
    from mouseDragEnd_session [OF this] c True show ?thesis by simp
  next
    case False
    with assms(2) d have t: "touchEndHandler handlers event s w = (c, s', w')"
      by (auto simp: dispatch_def)
    show ?thesis
    proof (cases "isDragging s")
      case True
      from touchEnd_session [OF t True] c show ?thesis by (simp add: emptySession_def)
    next
      case False
      with t cs show ?thesis by (simp add: touchEnd_inactive consistent_def)
    qed
  qed
  with cs d md show ?thesis by (simp add: consistent_def)
qed

theorem end_events_reset_session_witness:
  "run handlers0 [touchEvent ''touchstart'' tile0 5 5, touchEvent ''touchmove'' tile0 50 50]
          emptySession world0 = (dragging0, world1)
   \<and> isDragging dragging0
   \<and> fst (dispatch handlers0 (touchEvent ''touchend'' tile0 50 50) dragging0 world1) = Returned
   \<and> fst (snd (dispatch handlers0 (touchEvent ''touchend'' tile0 50 50) dragging0 world1))
       = emptySession
   \<and> fst (snd (mouseDropHandler handlers0 (pointerEvent ''drop'' zone0 50 50) dragging0 world1))
       = dragging0"
proof -
  let ?e = "touchEvent ''touchend'' tile0 50 50"
  have p: "page world1 = page0" by (simp add: world1_def)
  have t: "etype ?e = ''dragend'' \<or> etype ?e = ''touchend'' \<or> etype ?e = ''touchcancel''"
    by (simp add: etype_touchEvent)
  have d: "fst (dispatch handlers0 ?e dragging0 world1) = Returned"
    by (simp add: dispatch_def etype_touchEvent touchEnd_dragging0_page0 [OF p])
  from end_events_reset_session [OF run_touch_drag t d, of "pointerEvent ''drop'' zone0 50 50"] d
  have
    "fst (dispatch handlers0 ?e dragging0 world1) = Returned
     \<and> fst (snd (dispatch handlers0 ?e dragging0 world1)) = emptySession
     \<and> fst (snd (mouseDropHandler handlers0 (pointerEvent ''drop'' zone0 50 50) dragging0 world1))
         = dragging0"
    by (simp add: dragging0_simps etype_touchEvent)
  with run_touch_drag show ?thesis by (simp only: dragging0_simps simp_thms)
qed

text \<open>
  The claim as stated fails on the pointer path: a native drop leaves the session active,
  and after a native drag end the payload set at drag start is still in the session.
\<close>

theorem pointer_path_counterexample:
  "isDragging (fst (snd (mouseDropHandler handlers0 (pointerEvent ''drop'' zone0 50 50)
      dragging0 world0)))
   \<and> \<not> isDragging (fst (run handlers0
        [pointerEvent ''dragstart'' tile0 5 5, pointerEvent ''dragend'' tile0 50 50]
        emptySession world0))
   \<and> dragData (fst (run handlers0
        [pointerEvent ''dragstart'' tile0 5 5, pointerEvent ''dragend'' tile0 50 50]
        emptySession world0)) ''text/plain'' = Some ''0-3''
   \<and> fst (run handlers0
        [pointerEvent ''dragstart'' tile0 5 5, pointerEvent ''dragend'' tile0 50 50]
        emptySession world0) \<noteq> emptySession"
  unfolding run_pointer_drag by (simp add: mouseDrop_quiet dragging0_simps emptySession_def)

subsection \<open>End events without a session\<close>

lemma mouseDrop_trace:
  "trace (snd (snd (mouseDropHandler handlers event s w))) =
     trace w @ PreventDefault (etype event)
       # (case drop_handler handlers of None \<Rightarrow> [] | Some f \<Rightarrow> [Invoked HDrop (Native event)])"
  by (simp add: mouseDropHandler_def invoke_def preventDefault_def Let_def
      split: option.splits prod.splits)

text \<open>
  C6, as amended. A touch end or touch cancel is a no-op when no session is active: the
  listener returns at once, no handler is called and session and world are unchanged. A
  native drop never changes the session, but it is not gated on the session: its default
  action is suppressed and the drop handler, when supplied, is called with the native event
  whether or not a session is active.
\<close>

theorem inactive_end_events:
  "(\<not> isDragging s \<longrightarrow> touchEndHandler handlers event s w = (Returned, s, w))
   \<and> fst (snd (mouseDropHandler handlers event s w)) = s
   \<and> newEffects w (snd (snd (mouseDropHandler handlers event s w))) =
       PreventDefault (etype event)
         # (case drop_handler handlers of
              None \<Rightarrow> []
            | Some f \<Rightarrow> [Invoked HDrop (Native event)])"
proof -
  have "fst (snd (mouseDropHandler handlers event s w)) = s"
    using mouseDrop_session [of handlers event s w] by (metis prod.collapse)
  then show ?thesis
    by (simp add: touchEnd_inactive newEffects_append [OF mouseDrop_trace])
qed

theorem inactive_end_events_witness:
  "\<not> isDragging emptySession
   \<and> touchEndHandler handlers0 (touchEvent ''touchend'' tile0 50 50) emptySession world0
       = (Returned, emptySession, world0)
   \<and> fst (snd (mouseDropHandler handlers0 (pointerEvent ''drop'' zone0 50 50) emptySession world0))
       = emptySession
   \<and> newEffects world0
        (snd (snd (mouseDropHandler handlers0 (pointerEvent ''drop'' zone0 50 50) emptySession world0)))
       = [PreventDefault ''drop'', Invoked HDrop (Native (pointerEvent ''drop'' zone0 50 50))]
   \<and> isDragging dragging0
   \<and> fst (snd (mouseDropHandler handlers0 (pointerEvent ''drop'' zone0 50 50) dragging0 world0))
       = dragging0
   \<and> newEffects world0
        (snd (snd (mouseDropHandler handlers0 (pointerEvent ''drop'' zone0 50 50) dragging0 world0)))
       = [PreventDefault ''drop'', Invoked HDrop (Native (pointerEvent ''drop'' zone0 50 50))]"
proof -
  have i: "\<not> isDragging emptySession" by (simp add: emptySession_def)
  from inactive_end_events [of emptySession handlers0 "touchEvent ''touchend'' tile0 50 50" world0]
    inactive_end_events [of emptySession handlers0 "pointerEvent ''drop'' zone0 50 50" world0]
    inactive_end_events [of dragging0 handlers0 "pointerEvent ''drop'' zone0 50 50" world0] i
  show ?thesis by (simp add: handlers0_def etype_pointerEvent dragging0_simps)
qed

text \<open>
  The claim as stated fails for the native drop: with no session active, the drop handler
  is called.
\<close>

theorem inactive_drop_counterexample:
  "\<not> isDragging emptySession
   \<and> list_ex isInvoked (newEffects world0
        (snd (snd (mouseDropHandler handlers0 (pointerEvent ''drop'' zone0 50 50)
           emptySession world0))))"
  by (simp add: mouseDrop_quiet newEffects_def world0_def emptySession_def)

subsection \<open>Starting a drag\<close>

lemma startTarget_page: "startTarget event p = (r, p') \<Longrightarrow> p' = p"
  by (auto simp: startTarget_def getElementFromPoint_def split: if_splits)

lemma unifiedDragStart_ineligible:
  assumes "etype event = ''dragstart'' \<or> etype event = ''touchstart''"
    and "startTarget event (page w) = (Inr targetElement, p)"
    and "\<not> isDraggableElement targetElement \<or> isNonDraggableInteractive targetElement"
  shows "unifiedDragStart handlers event s w = (Returned, s, w)"
proof -
  from assms(2) have "p = page w" by (rule startTarget_page)
  with assms show ?thesis by (auto simp: unifiedDragStart_def)
qed

lemma unifiedDragStart_eligible:
  assumes "etype event = ''dragstart'' \<or> etype event = ''touchstart''"
    and "startTarget event (page w) = (Inr (Some e), p)"
    and "isDraggableElement (Some e)" and "\<not> isNonDraggableInteractive (Some e)"
  shows "isDragging (fst (snd (unifiedDragStart handlers event s w)))
       \<and> draggedElement (fst (snd (unifiedDragStart handlers event s w))) = Some e
       \<and> newEffects w (snd (snd (unifiedDragStart handlers event s w))) =
           (case dragStart handlers of
              None \<Rightarrow> []
            | Some f \<Rightarrow>
                [Invoked HDragStart
                   (Synthetic \<lparr>stype = ''dragstart'', starget = Some e, sclientX = None,
                      sclientY = None,
                      sgetData = Some (startGetData (objectPrototype (page w)) event
                        (s\<lparr>isDragging := True, draggedElement := Some e,
                           dragData := Map.empty\<rparr>))\<rparr>)])"
proof -
  from assms(2) have "p = page w" by (rule startTarget_page)
  with assms show ?thesis
    by (auto simp: unifiedDragStart_def Let_def invoke_def newEffects_def
        split: option.splits prod.splits)
qed

text \<open>
  On the touch path the start routine is reached only when the touched node is, or is
  inside, a tile or an element marked drag-enabled.
\<close>

lemma touchStart_prefilter:
  "closest (sel_tile (quirksMode (page w))) (target event) = None \<Longrightarrow>
     touchStartHandler handlers event s w = (Returned, s, w)"
  by (simp add: touchStartHandler_def)

text \<open>
  C5, as amended. In the unified start routine, a target whose tile-identifier attribute is
  a non-empty string and that is neither a button, link or input nor inside one starts a
  session and the start handler is called with it, whatever its draggable flag and classes.
  A target that is, or is inside, a button, link or input starts nothing even when it
  carries a tile identifier, and so does any target that is not draggable: the session and
  the world are unchanged and no handler is called. An element is a button, link or input
  when its tag name is \<^verbatim>\<open>BUTTON\<close>, \<^verbatim>\<open>A\<close> or \<^verbatim>\<open>INPUT\<close>, and it is or is
  inside one when the selector \<^verbatim>\<open>button, a, input\<close> matches it or one of its
  ancestors.
\<close>

theorem start_eligibility:
  assumes "etype event = ''dragstart'' \<or> etype event = ''touchstart''"
    and "startTarget event (page w) = (Inr targetElement, p)"
  shows "(targetElement = Some e \<and> tileId e = Some t \<and> t \<noteq> []
          \<and> tagName e \<noteq> ''BUTTON'' \<and> tagName e \<noteq> ''A'' \<and> tagName e \<noteq> ''INPUT''
          \<and> closest sel_interactive e = None
            \<longrightarrow> isDragging (fst (snd (unifiedDragStart handlers event s w)))
              \<and> draggedElement (fst (snd (unifiedDragStart handlers event s w))) = Some e
              \<and> newEffects w (snd (snd (unifiedDragStart handlers event s w))) =
                  (case dragStart handlers of
                     None \<Rightarrow> []
                   | Some f \<Rightarrow>
                       [Invoked HDragStart
                          (Synthetic \<lparr>stype = ''dragstart'', starget = Some e, sclientX = None,
                             sclientY = None,
                             sgetData = Some (startGetData (objectPrototype (page w)) event
                               (s\<lparr>isDragging := True, draggedElement := Some e,
                                  dragData := Map.empty\<rparr>))\<rparr>)]))
       \<and> (targetElement = Some e
          \<and> (tagName e = ''BUTTON'' \<or> tagName e = ''A'' \<or> tagName e = ''INPUT''
               \<or> closest sel_interactive e \<noteq> None)
            \<longrightarrow> unifiedDragStart handlers event s w = (Returned, s, w))
       \<and> (\<not> isDraggableElement targetElement
            \<longrightarrow> unifiedDragStart handlers event s w = (Returned, s, w))"
proof (intro conjI impI)
  assume a: "targetElement = Some e \<and> tileId e = Some t \<and> t \<noteq> []
          \<and> tagName e \<noteq> ''BUTTON'' \<and> tagName e \<noteq> ''A'' \<and> tagName e \<noteq> ''INPUT''
          \<and> closest sel_interactive e = None"
  then have d: "isDraggableElement (Some e)" and i: "\<not> isNonDraggableInteractive (Some e)"
    by (simp_all add: isDraggableElement_def js_prop_def isNonDraggableInteractive_def)
  from a assms(2) have st: "startTarget event (page w) = (Inr (Some e), p)" by simp
  from unifiedDragStart_eligible [OF assms(1) st d i, of handlers s]
  show "isDragging (fst (snd (unifiedDragStart handlers event s w)))"
    and "draggedElement (fst (snd (unifiedDragStart handlers event s w))) = Some e"
    and "newEffects w (snd (snd (unifiedDragStart handlers event s w))) =
           (case dragStart handlers of
              None \<Rightarrow> []
            | Some f \<Rightarrow>
                [Invoked HDragStart
                   (Synthetic \<lparr>stype = ''dragstart'', starget = Some e, sclientX = None,
                      sclientY = None,
                      sgetData = Some (startGetData (objectPrototype (page w)) event
                        (s\<lparr>isDragging := True, draggedElement := Some e,
                           dragData := Map.empty\<rparr>))\<rparr>)])"
    by simp_all
next
  assume "targetElement = Some e
          \<and> (tagName e = ''BUTTON'' \<or> tagName e = ''A'' \<or> tagName e = ''INPUT''
               \<or> closest sel_interactive e \<noteq> None)"
  then have "isNonDraggableInteractive targetElement"
    by (auto simp: isNonDraggableInteractive_def)
  with unifiedDragStart_ineligible [OF assms]
  show "unifiedDragStart handlers event s w = (Returned, s, w)" by simp
next
  assume "\<not> isDraggableElement targetElement"
  with unifiedDragStart_ineligible [OF assms]
  show "unifiedDragStart handlers event s w = (Returned, s, w)" by simp
qed

lemma startTarget_pointer:
  "startTarget (pointerEvent ''dragstart'' e x y) p = (Inr (Some e), p)"
  by (simp add: startTarget_def pointerEvent_def)

theorem start_eligibility_witness:
  "startTarget (pointerEvent ''dragstart'' idOnly0 5 5) (page world0) = (Inr (Some idOnly0), page0)
   \<and> tileId idOnly0 = Some ''0-3'' \<and> \<not> draggable idOnly0 \<and> classList idOnly0 = []
   \<and> tagName idOnly0 = ''DIV'' \<and> closest sel_interactive idOnly0 = None
   \<and> isDragging (fst (snd (unifiedDragStart handlers0 (pointerEvent ''dragstart'' idOnly0 5 5)
        emptySession world0)))
   \<and> draggedElement (fst (snd (unifiedDragStart handlers0 (pointerEvent ''dragstart'' idOnly0 5 5)
        emptySession world0))) = Some idOnly0
   \<and> tileId button0 = Some ''0-3'' \<and> tagName button0 = ''BUTTON''
   \<and> unifiedDragStart handlers0 (pointerEvent ''dragstart'' button0 5 5) emptySession world0
       = (Returned, emptySession, world0)
   \<and> tileId svgLink0 = Some ''0-3'' \<and> tagName svgLink0 = ''a''
   \<and> closest sel_interactive svgLink0 = Some svgLink0
   \<and> unifiedDragStart handlers0 (pointerEvent ''dragstart'' svgLink0 5 5) emptySession world0
       = (Returned, emptySession, world0)
   \<and> tileId svgShape0 = Some ''0-4'' \<and> closest sel_interactive svgShape0 = Some svgLink0
   \<and> unifiedDragStart handlers0 (pointerEvent ''dragstart'' svgShape0 5 5) emptySession world0
       = (Returned, emptySession, world0)
   \<and> \<not> isDraggableElement (Some zone0)
   \<and> unifiedDragStart handlers0 (pointerEvent ''dragstart'' zone0 5 5) emptySession world0
       = (Returned, emptySession, world0)"
proof -
  have t: "etype (pointerEvent ''dragstart'' e 5 5) = ''dragstart''
             \<or> etype (pointerEvent ''dragstart'' e 5 5) = ''touchstart''" for e
    by (simp add: etype_pointerEvent)
  have st: "startTarget (pointerEvent ''dragstart'' e 5 5) (page world0) = (Inr (Some e), page0)" for e
    by (simp add: startTarget_pointer world0_def)
  have a: "tileId idOnly0 = Some ''0-3''" "\<not> draggable idOnly0" "classList idOnly0 = []"
    "tagName idOnly0 = ''DIV''" "closest sel_interactive idOnly0 = None"
    by (simp_all add: idOnly0_def sel_interactive_def)
  have b: "tileId button0 = Some ''0-3''" "tagName button0 = ''BUTTON''"
    by (simp_all add: button0_def)
  have l: "tileId svgLink0 = Some ''0-3''" "tagName svgLink0 = ''a''"
    "closest sel_interactive svgLink0 = Some svgLink0"
    by (simp_all add: svgLink0_def sel_interactive_def)
  have r: "tileId svgShape0 = Some ''0-4''" "closest sel_interactive svgShape0 = Some svgLink0"
    by (simp_all add: svgShape0_def svgLink0_def sel_interactive_def)
  have c: "\<not> isDraggableElement (Some zone0)"
    by (simp add: isDraggableElement_def zone0_def js_prop_def)
  from start_eligibility [OF t st, of idOnly0 idOnly0 "''0-3''" handlers0 emptySession]
    start_eligibility [OF t st, of button0 button0 "''0-3''" handlers0 emptySession]
    start_eligibility [OF t st, of svgLink0 svgLink0 "''0-3''" handlers0 emptySession]
    start_eligibility [OF t st, of svgShape0 svgShape0 "''0-4''" handlers0 emptySession]
    start_eligibility [OF t st, of zone0 zone0 "''0-3''" handlers0 emptySession]
    st [of idOnly0] a b l r c
  show ?thesis by simp
qed

text \<open>
  The claim as stated fails for an element whose tile-identifier attribute is the empty
  string: it carries the attribute and nothing else, and a drag start on it starts nothing.
\<close>

theorem empty_identifier_counterexample:
  "tileId emptyId0 \<noteq> None \<and> \<not> draggable emptyId0 \<and> classList emptyId0 = []
   \<and> tagName emptyId0 = ''DIV'' \<and> closest sel_interactive emptyId0 = None
   \<and> unifiedDragStart handlers0 (pointerEvent ''dragstart'' emptyId0 5 5) emptySession world0
       = (Returned, emptySession, world0)"
proof -
  have "\<not> isDraggableElement (Some emptyId0)"
    by (simp add: isDraggableElement_def emptyId0_def js_prop_def)
  then have "unifiedDragStart handlers0 (pointerEvent ''dragstart'' emptyId0 5 5) emptySession world0
       = (Returned, emptySession, world0)"
    by (simp add: unifiedDragStart_def etype_pointerEvent startTarget_pointer world0_def)
  then show ?thesis by (simp add: emptyId0_def sel_interactive_def)
qed

subsection \<open>The drop on touch end\<close>

lemma touchEnd_drop_trace:
  assumes "isDragging s" and "moveTarget event s (page w) = Inr (Some z)"
    and "drop_handler handlers = Some f"
  shows "\<exists>rest. trace (snd (snd (touchEndHandler handlers event s w))) =
           trace w @ PreventDefault (etype event)
             # Invoked HDrop (dropEvent (objectPrototype (page w)) s (Some z)
                 (getEventCoordinates event)) # rest
         \<and> (rest = [] \<or> (\<exists>ev. rest = [Invoked HDragEnd ev]))"
proof -
  have p: "page (preventDefault event w) = page w" by (simp add: preventDefault_def)
  from moveTarget_resolved [OF assms(2)] assms(1,3) show ?thesis
    by (auto simp: touchEndHandler_def Let_def p invoke_def preventDefault_def
        afterHitTest_fields split: option.splits completion.splits)
qed

lemma dropGetData_cases:
  "dropGetData proto s key =
     (let tileIdentifier =
            (case draggedElement s of Some d \<Rightarrow> js_prop (tileId d) | None \<Rightarrow> Null)
      in case dragData s key of
           Some v \<Rightarrow> if v \<noteq> [] then Str v else tileIdentifier
         | None \<Rightarrow> if truthy (proto key) then proto key else tileIdentifier)"
  by (simp add: dropGetData_def js_or_def getProperty_def split: option.splits)

text \<open>
  C8, as amended. On a touch end of an active session over an element \<open>z\<close>, a supplied
  drop handler is called once, with target \<open>z\<close> and a payload \<open>get\<close> that answers, for
  a key that is not the name of a property the payload object inherits, the value stored
  in the session payload for the key when that value is a non-empty string, and otherwise
  (no value, or the empty string) the tile-identifier attribute of the dragged element.
\<close>

theorem drop_payload_lookup:
  assumes "isDragging s" and "moveTarget event s (page w) = Inr (Some z)"
    and "drop_handler handlers = Some f"
    and "objectPrototype (page w) key = Undefined"
  shows "dropCalls (newEffects w (snd (snd (touchEndHandler handlers event s w)))) =
           [Synthetic \<lparr>stype = ''drop'', starget = Some z,
              sclientX = fst (getEventCoordinates event),
              sclientY = snd (getEventCoordinates event),
              sgetData = Some (dropGetData (objectPrototype (page w)) s)\<rparr>]
       \<and> (dragData s key = Some v \<and> v \<noteq> []
            \<longrightarrow> dropGetData (objectPrototype (page w)) s key = Str v)
       \<and> ((dragData s key = None \<or> dragData s key = Some []) \<and> draggedElement s = Some d
            \<longrightarrow> dropGetData (objectPrototype (page w)) s key = js_prop (tileId d))"
proof -
  from touchEnd_drop_trace [OF assms(1-3)] obtain rest where
    t: "trace (snd (snd (touchEndHandler handlers event s w))) =
           trace w @ PreventDefault (etype event)
             # Invoked HDrop (dropEvent (objectPrototype (page w)) s (Some z)
                 (getEventCoordinates event)) # rest"
    and r: "rest = [] \<or> (\<exists>ev. rest = [Invoked HDragEnd ev])"
    by blast
  from r have "dropCalls rest = []" by auto
  with newEffects_append [OF t] assms(4) show ?thesis
    by (auto simp: dropEvent_def dropGetData_cases)
qed

lemma carrying0_simps:
  "isDragging carrying0" "draggedElement carrying0 = Some tile0"
  by (simp_all add: carrying0_def)

theorem drop_payload_lookup_witness:
  "isDragging carrying0
   \<and> moveTarget (touchEvent ''touchend'' tile0 50 50) carrying0 (page world0) = Inr (Some zone0)
   \<and> drop_handler handlers0 = Some quiet
   \<and> objectPrototype (page world0) ''text/plain'' = Undefined
   \<and> objectPrototype (page world0) ''text/html'' = Undefined
   \<and> dropCalls (newEffects world0
        (snd (snd (touchEndHandler handlers0 (touchEvent ''touchend'' tile0 50 50) carrying0 world0))))
       = [Synthetic \<lparr>stype = ''drop'', starget = Some zone0, sclientX = Some 50,
            sclientY = Some 50,
            sgetData = Some (dropGetData (objectPrototype (page world0)) carrying0)\<rparr>]
   \<and> tileId tile0 = Some ''0-3''
   \<and> dragData carrying0 ''text/plain'' = Some ''B5''
   \<and> dropGetData (objectPrototype (page world0)) carrying0 ''text/plain'' = Str ''B5''
   \<and> dragData carrying0 ''text/html'' = None
   \<and> dropGetData (objectPrototype (page world0)) carrying0 ''text/html'' = Str ''0-3''"
proof -
  have m: "moveTarget (touchEvent ''touchend'' tile0 50 50) carrying0 (page world0) = Inr (Some zone0)"
    by (simp add: moveTarget_def coords_touchEvent carrying0_simps getElementFromPoint_at
        hitTest_page0_zone world0_def)
  have h: "drop_handler handlers0 = Some quiet" by (simp add: handlers0_def)
  have d: "dragData carrying0 ''text/plain'' = Some ''B5''" "dragData carrying0 ''text/html'' = None"
    by (simp_all add: carrying0_def)
  have k: "objectPrototype (page world0) ''text/plain'' = Undefined"
    "objectPrototype (page world0) ''text/html'' = Undefined"
    by (simp_all add: world0_def standardPrototype_def)
  have i: "tileId tile0 = Some ''0-3''" by (simp add: tile0_def)
  from drop_payload_lookup [OF carrying0_simps(1) m h k(1), of "''B5''" tile0]
    drop_payload_lookup [OF carrying0_simps(1) m h k(2), of "''B5''" tile0]
    m h d k i
  show ?thesis by (simp add: carrying0_simps coords_touchEvent js_prop_def)
qed

text \<open>
  The claim as stated fails when the value set at drag start is the empty string: the
  payload \<open>get\<close> answers the tile identifier, not the value that was set.
\<close>

theorem empty_payload_counterexample:
  "dragData (fst (snd (touchStartHandler (handlers0\<lparr>dragStart := Some (setter [])\<rparr>)
      (touchEvent ''touchstart'' tile0 5 5) emptySession world0))) ''text/plain'' = Some []
   \<and> dropGetData standardPrototype
        (fst (snd (touchStartHandler (handlers0\<lparr>dragStart := Some (setter [])\<rparr>)
           (touchEvent ''touchstart'' tile0 5 5) emptySession world0))) ''text/plain''
       = Str ''0-3''"
proof -
  have t: "target (touchEvent ''touchstart'' tile0 5 5) = tile0"
    by (simp add: touchEvent_def)
  have st: "startTarget (touchEvent ''touchstart'' tile0 5 5) page0 = (Inr (Some tile0), page0)"
    by (simp add: startTarget_def etype_touchEvent coords_touchEvent getElementFromPoint_def
        elementFromPoint_def hitTest_page0_tile)
  have "fst (snd (touchStartHandler (handlers0\<lparr>dragStart := Some (setter [])\<rparr>)
      (touchEvent ''touchstart'' tile0 5 5) emptySession world0)) =
     \<lparr>isDragging = True, draggedElement = Some tile0, currentDropTarget = None,
      dragData = [''text/plain'' \<mapsto> []]\<rparr>"
    by (simp add: touchStartHandler_def t closest_tile0 unifiedDragStart_def etype_touchEvent
        world0_def st eligible_tile0 Let_def invoke_def handlers0_def setter_def setData_def
        emptySession_def)
  then show ?thesis
    by (simp add: dropGetData_cases js_prop_def tile0_def standardPrototype_def)
qed

text \<open>
  For a key that names an inherited property, the payload \<open>get\<close> answers that property
  when nothing is stored for the key.
\<close>

lemma inherited_key:
  "dragData dragging0 ''toString'' = None
   \<and> dropGetData standardPrototype dragging0 ''toString'' = Obj ''toString''"
  by (simp add: dropGetData_cases dragging0_def standardPrototype_def)

subsection \<open>Touch moves\<close>

lemma touchMove_unchanged_target:
  assumes "etype event = ''touchmove''" and "isDragging s"
    and "moveTarget event s (page w) = Inr (currentDropTarget s)"
  shows "unifiedDragOver handlers event s w =
           (Returned, s,
            preventDefault event (w\<lparr>page := afterHitTest (draggedElement s) (page w)\<rparr>))"
proof -
  have p: "page (preventDefault event w) = page w" by (simp add: preventDefault_def)
  from moveTarget_resolved [OF assms(3)] assms(1,2) show ?thesis
    by (simp add: unifiedDragOver_def Let_def p preventDefault_def)
qed

text \<open>
  A processed touch move that resolves to \<open>z\<close> either stops at a throwing leave handler,
  with the session as it was and no over handler called, or makes \<open>z\<close> the drop target
  and calls the over handler at most once, with target \<open>z\<close>.
\<close>

lemma touchMove_step:
  assumes "etype event = ''touchmove''" and "isDragging s"
    and "moveTarget event s (page w) = Inr z"
    and "unifiedDragOver handlers event s w = (c, s', w')"
  shows "(s' = s \<and> filter isOver (newEffects w w') = [] \<and> c \<noteq> Returned)
       \<or> (s' = s\<lparr>currentDropTarget := z\<rparr>
          \<and> (filter isOver (newEffects w w') = []
              \<or> (\<exists>ev. filter isOver (newEffects w w') = [Invoked HDragOver ev]
                   \<and> htarget ev = z \<and> z \<noteq> currentDropTarget s)))"
proof -
  have p: "page (preventDefault event w) = page w" by (simp add: preventDefault_def)
  from moveTarget_resolved [OF assms(3)] assms(1,2,4) show ?thesis
    by (auto simp: unifiedDragOver_def Let_def p invoke_def preventDefault_def newEffects_def
        split: option.splits completion.splits if_splits)
qed

lemma unifiedDragOver_trace_grows:
  "unifiedDragOver handlers event s w = (c, s', w') \<Longrightarrow>
     trace w' = trace w @ newEffects w w'"
  by (auto simp: unifiedDragOver_def Let_def invoke_def preventDefault_def newEffects_def
      split: option.splits completion.splits if_splits prod.splits sum.splits)

lemma dispatch_touchmove:
  "etype event = ''touchmove'' \<Longrightarrow>
     dispatch handlers event s w = unifiedDragOver handlers event s w"
  by (simp add: dispatch_def)

lemma overCalls_append: "overCalls (xs @ ys) = overCalls xs + overCalls ys"
  by (simp add: overCalls_def)

lemma moves_settled:
  "movesTo z handlers events s w \<Longrightarrow> isDragging s \<Longrightarrow> currentDropTarget s = z \<Longrightarrow>
     fst (run handlers events s w) = s
     \<and> filter isInvoked (newEffects w (snd (run handlers events s w))) = []
     \<and> (\<exists>es. trace (snd (run handlers events s w)) = trace w @ es)"
proof (induction events arbitrary: w)
  case Nil
  then show ?case by (simp add: newEffects_def)
next
  case (Cons event events)
  let ?w1 = "preventDefault event (w\<lparr>page := afterHitTest (draggedElement s) (page w)\<rparr>)"
  from Cons.prems(1) have t: "etype event = ''touchmove''"
    and m: "moveTarget event s (page w) = Inr (currentDropTarget s)"
    using Cons.prems(3) by simp_all
  have u: "unifiedDragOver handlers event s w = (Returned, s, ?w1)"
    using t Cons.prems(2) m by (rule touchMove_unchanged_target)
  with Cons.prems(1) have "movesTo z handlers events s ?w1" by simp
  from Cons.IH [OF this Cons.prems(2,3)] obtain es where
    a: "fst (run handlers events s ?w1) = s"
    and b: "filter isInvoked (newEffects ?w1 (snd (run handlers events s ?w1))) = []"
    and c: "trace (snd (run handlers events s ?w1)) = trace ?w1 @ es"
    by blast
  have r: "run handlers (event # events) s w = run handlers events s ?w1"
    by (simp add: dispatch_touchmove [OF t] u)
  from b c have "filter isInvoked es = []" by (simp add: newEffects_def)
  with a c show ?case
    unfolding r by (simp add: newEffects_def preventDefault_def)
qed

lemma moves_at_most_once:
  "movesTo z handlers events s w \<Longrightarrow> isDragging s \<Longrightarrow>
     overCalls (trace (snd (run handlers events s w))) \<le> overCalls (trace w) + 1"
proof (induction events arbitrary: s w)
  case Nil
  then show ?case by simp
next
  case (Cons event events)
  obtain c s1 w1 where u: "unifiedDragOver handlers event s w = (c, s1, w1)"
    by (cases "unifiedDragOver handlers event s w")
  from Cons.prems(1) u have t: "etype event = ''touchmove''"
    and m: "moveTarget event s (page w) = Inr z"
    and rest: "movesTo z handlers events s1 w1"
    by simp_all
  have r: "run handlers (event # events) s w = run handlers events s1 w1"
    by (simp add: dispatch_touchmove [OF t] u)
  have g: "overCalls (trace w1) = overCalls (trace w) + overCalls (newEffects w w1)"
    using unifiedDragOver_trace_grows [OF u] overCalls_append by metis
  from touchMove_step [OF t Cons.prems(2) m u]
  consider (stopped) "s1 = s" "filter isOver (newEffects w w1) = []"
    | (moved) "s1 = s\<lparr>currentDropTarget := z\<rparr>" "overCalls (newEffects w w1) \<le> 1"
    by (auto simp: overCalls_def)
  then show ?case
  proof cases
    case stopped
    with g have "overCalls (trace w1) = overCalls (trace w)" by (simp add: overCalls_def)
    with Cons.IH [OF rest] stopped(1) Cons.prems(2) show ?thesis
      unfolding r by simp
  next
    case moved
    then have "isDragging s1" "currentDropTarget s1 = z"
      using Cons.prems(2) by simp_all
    with moves_settled [OF rest] obtain es where
      e: "trace (snd (run handlers events s1 w1)) = trace w1 @ es"
      and f: "filter isInvoked (newEffects w1 (snd (run handlers events s1 w1))) = []"
      by blast
    from e f have "filter isInvoked es = []" by (simp add: newEffects_def)
    then have "filter isOver es = []"
      by (induction es) (auto split: if_splits elim: isOver.elims)
    with e have "overCalls (trace (snd (run handlers events s1 w1))) = overCalls (trace w1)"
      by (simp add: overCalls_def)
    with g moved(2) show ?thesis unfolding r by simp
  qed
qed

lemma started0_simps:
  "isDragging started0" "draggedElement started0 = Some tile0"
  "currentDropTarget started0 = None"
  by (simp_all add: started0_def)

lemma moveTarget_page0:
  assumes "draggedElement s = Some tile0" and "0 \<le> x" and "x < 100" and "0 \<le> y" and "y < 100"
  shows "moveTarget (touchEvent t e x y) s page0 = Inr (Some zone0)"
  using assms
  by (simp add: moveTarget_def coords_touchEvent getElementFromPoint_at hitTest_page0_zone_at)

lemma touchMove_started0:
  assumes "page w = page0"
  shows "unifiedDragOver handlers0 (touchEvent ''touchmove'' tile0 50 50) started0 w =
     (Returned, dragging0,
      \<lparr>page = page0,
       trace = trace w @ [PreventDefault ''touchmove'',
          Invoked HDragOver (Synthetic \<lparr>stype = ''dragover'', starget = Some zone0,
            sclientX = Some 50, sclientY = Some 50, sgetData = None\<rparr>)]\<rparr>)"
  using touchMove_zone0 [OF assms] by (simp add: started0_def)

text \<open>
  C3. While a session is active, a sequence of touch moves that all resolve to the same
  element calls the over handler at most once; when that element is already the drop target
  of the session, the sequence calls no handler at all and leaves the session as it is; and
  a single move that resolves to the current drop target only suppresses the default action
  and runs the hit test: it returns with the session as it is, and the world it leaves
  differs from the one it found by the suppressed default and the display written back by
  the hit test.
\<close>

theorem dragOver_at_most_once:
  assumes "isDragging s" and "movesTo z handlers events s w"
  shows "overCalls (trace (snd (run handlers events s w))) \<le> overCalls (trace w) + 1
       \<and> (currentDropTarget s = z
            \<longrightarrow> fst (run handlers events s w) = s
              \<and> filter isInvoked (newEffects w (snd (run handlers events s w))) = [])
       \<and> (etype event = ''touchmove'' \<and> moveTarget event s (page w) = Inr (currentDropTarget s)
            \<longrightarrow> unifiedDragOver handlers event s w =
                  (Returned, s,
                   preventDefault event
                     (w\<lparr>page := afterHitTest (draggedElement s) (page w)\<rparr>)))"
proof -
  have "overCalls (trace (snd (run handlers events s w))) \<le> overCalls (trace w) + 1"
    using assms(2,1) by (rule moves_at_most_once)
  moreover have "fst (run handlers events s w) = s
      \<and> filter isInvoked (newEffects w (snd (run handlers events s w))) = []"
    if "currentDropTarget s = z"
    using moves_settled [OF assms(2,1) that] by simp
  moreover have "unifiedDragOver handlers event s w =
      (Returned, s, preventDefault event (w\<lparr>page := afterHitTest (draggedElement s) (page w)\<rparr>))"
    if "etype event = ''touchmove'' \<and> moveTarget event s (page w) = Inr (currentDropTarget s)"
    using touchMove_unchanged_target [OF conjunct1 [OF that] assms(1) conjunct2 [OF that]] .
  ultimately show ?thesis by simp
qed

theorem dragOver_at_most_once_witness:
  "isDragging started0
   \<and> movesTo (Some zone0) handlers0
        [touchEvent ''touchmove'' tile0 50 50, touchEvent ''touchmove'' tile0 60 60]
        started0 world0
   \<and> overCalls (trace (snd (run handlers0
        [touchEvent ''touchmove'' tile0 50 50, touchEvent ''touchmove'' tile0 60 60]
        started0 world0))) \<le> overCalls (trace world0) + 1
   \<and> isDragging dragging0 \<and> currentDropTarget dragging0 = Some zone0
   \<and> movesTo (Some zone0) handlers0 [touchEvent ''touchmove'' tile0 60 60] dragging0 world1
   \<and> fst (run handlers0 [touchEvent ''touchmove'' tile0 60 60] dragging0 world1) = dragging0
   \<and> filter isInvoked (newEffects world1
        (snd (run handlers0 [touchEvent ''touchmove'' tile0 60 60] dragging0 world1))) = []
   \<and> moveTarget (touchEvent ''touchmove'' tile0 60 60) dragging0 (page world1)
       = Inr (currentDropTarget dragging0)
   \<and> unifiedDragOver handlers0 (touchEvent ''touchmove'' tile0 60 60) dragging0 world1
       = (Returned, dragging0, preventDefault (touchEvent ''touchmove'' tile0 60 60) world1)"
proof -
  let ?m1 = "touchEvent ''touchmove'' tile0 50 50"
  let ?m2 = "touchEvent ''touchmove'' tile0 60 60"
  have p: "page world0 = page0" "page world1 = page0"
    by (simp_all add: world0_def world1_def)
  have t2: "moveTarget ?m2 dragging0 p0 = Inr (Some zone0)" if "p0 = page0" for p0
    using that by (simp add: moveTarget_page0 dragging0_simps)
  have m2: "movesTo (Some zone0) handlers0 [?m2] dragging0 w" if "page w = page0" for w
    using that by (simp add: etype_touchEvent t2 split: prod.splits)
  obtain w1 where s1: "unifiedDragOver handlers0 ?m1 started0 world0 = (Returned, dragging0, w1)"
    and p1: "page w1 = page0"
    using touchMove_started0 [OF p(1)] by simp
  have m12: "movesTo (Some zone0) handlers0 [?m1, ?m2] started0 world0"
  proof -
    have "etype ?m1 = ''touchmove''" by (simp add: etype_touchEvent)
    moreover have "moveTarget ?m1 started0 (page world0) = Inr (Some zone0)"
      by (simp add: moveTarget_page0 started0_simps p)
    moreover have "movesTo (Some zone0) handlers0 [?m2] dragging0 w1"
      using p1 by (rule m2)
    ultimately show ?thesis by (simp only: movesTo.simps s1 prod.case simp_thms)
  qed
  have e: "etype ?m2 = ''touchmove''" by (simp add: etype_touchEvent)
  have i: "isDragging started0" "isDragging dragging0" "currentDropTarget dragging0 = Some zone0"
    by (simp_all add: started0_simps dragging0_simps)
  have t: "moveTarget ?m2 dragging0 (page world1) = Inr (currentDropTarget dragging0)"
    using t2 [OF p(2)] by (simp add: dragging0_simps)
  have n: "world1\<lparr>page := afterHitTest (draggedElement dragging0) (page world1)\<rparr> = world1"
    by (simp add: dragging0_simps afterHitTest_normal p)
  from dragOver_at_most_once [OF i(2) m2 [OF p(2)], of ?m2] t e i(3)
  have u: "fst (run handlers0 [?m2] dragging0 world1) = dragging0
      \<and> filter isInvoked (newEffects world1 (snd (run handlers0 [?m2] dragging0 world1))) = []
      \<and> unifiedDragOver handlers0 ?m2 dragging0 world1
          = (Returned, dragging0, preventDefault ?m2 world1)"
    by (simp only: n simp_thms)
  from dragOver_at_most_once [OF i(1) m12]
  have b: "overCalls (trace (snd (run handlers0 [?m1, ?m2] started0 world0)))
      \<le> overCalls (trace world0) + 1"
    by (rule conjunct1)
  from b u m12 m2 [OF p(2)] t i show ?thesis by (simp only: simp_thms)
qed

subsection \<open>The dragged element is never the target\<close>

lemma reportsTarget_iff:
  "list_ex (reportsTarget n d) es = (\<exists>ev. Invoked n ev \<in> set es \<and> htarget ev = Some d)"
proof (induction es)
  case Nil
  then show ?case by simp
next
  case (Cons e es)
  then show ?case by (cases e) auto
qed

lemma touchMove_over_targets:
  assumes "etype event = ''touchmove''"
    and "unifiedDragOver handlers event s w = (c, s', w')"
    and "Invoked HDragOver ev \<in> set (newEffects w w')"
  shows "moveTarget event s (page w) = Inr (htarget ev)"
  using assms
  by (auto simp: unifiedDragOver_def Let_def invoke_def preventDefault_def newEffects_def
      moveTarget_def
      split: option.splits completion.splits if_splits prod.splits sum.splits)

lemma touchMove_new_target:
  assumes "etype event = ''touchmove''" and "isDragging s"
    and "unifiedDragOver handlers event s w = (Returned, s', w')"
  shows "moveTarget event s (page w) = Inr (currentDropTarget s')"
  using assms
  by (auto simp: unifiedDragOver_def Let_def invoke_def preventDefault_def moveTarget_def
      split: option.splits completion.splits if_splits prod.splits sum.splits)

lemma touchEnd_drop_targets:
  assumes "touchEndHandler handlers event s w = (c, s', w')"
    and "Invoked HDrop ev \<in> set (newEffects w w')"
  shows "moveTarget event s (page w) = Inr (htarget ev)"
  using assms
  by (auto simp: touchEndHandler_def Let_def invoke_def preventDefault_def newEffects_def
      moveTarget_def dropEvent_def
      split: option.splits completion.splits if_splits prod.splits sum.splits)

lemma hidingWorks_page0: "hidingWorks page0 e"
  by (simp add: hidingWorks_def computedDisplay_def setStyleDisplay_def page0_def
      authorCascade_def)

lemma pageForced_hitTest:
  "getElementFromPoint (Some 5) (Some 5) (Some tile0) pageForced = (Inr (Some tile0), pageForced)"
proof -
  have "\<not> snd (inlineDisplay pageForced (eid tile0))"
    by (simp add: pageForced_def)
  moreover have "hitTest (setStyleDisplay tile0 ''none'' pageForced) 5 5 = Some tile0"
    by (simp add: hitTest_def inside_def pageForced_def page0_def tile0_def zone0_def
        setStyleDisplay_def computedDisplay_def authorCascade_def)
  ultimately show ?thesis by (simp add: getElementFromPoint_at)
qed

text \<open>
  C4, as amended. While an element \<open>d\<close> is being dragged and hiding works on it (an
  inline \<^verbatim>\<open>display: none\<close> of normal priority removes its box), the element resolved
  under the touch point on a touch move or touch end is never \<open>d\<close>: the hit test runs
  with \<open>d\<close> hidden. So no over handler and no drop handler is given \<open>d\<close> as target,
  and the drop target a touch move leaves in the session is not \<open>d\<close>.
\<close>

theorem dragged_element_never_target:
  assumes "isDragging s" and "draggedElement s = Some d" and "hidingWorks (page w) d"
  shows "moveTarget event s (page w) \<noteq> Inr (Some d)
       \<and> (etype event = ''touchmove''
            \<longrightarrow> \<not> list_ex (reportsTarget HDragOver d)
                    (newEffects w (snd (snd (unifiedDragOver handlers event s w)))))
       \<and> (etype event = ''touchmove'' \<and> fst (unifiedDragOver handlers event s w) = Returned
            \<longrightarrow> currentDropTarget (fst (snd (unifiedDragOver handlers event s w))) \<noteq> Some d)
       \<and> \<not> list_ex (reportsTarget HDrop d)
             (newEffects w (snd (snd (touchEndHandler handlers event s w))))"
proof -
  note ex = moveTarget_excludes [OF assms(2,3), of event]
  obtain c s' w' where u: "unifiedDragOver handlers event s w = (c, s', w')"
    by (cases "unifiedDragOver handlers event s w")
  obtain c2 s2 w2 where t: "touchEndHandler handlers event s w = (c2, s2, w2)"
    by (cases "touchEndHandler handlers event s w")
  have "\<not> list_ex (reportsTarget HDragOver d) (newEffects w w')" if "etype event = ''touchmove''"
    using touchMove_over_targets [OF that u] ex
    by (auto simp: reportsTarget_iff)
  moreover have "currentDropTarget s' \<noteq> Some d" if "etype event = ''touchmove''" "c = Returned"
  proof -
    from u that(2) have "unifiedDragOver handlers event s w = (Returned, s', w')" by simp
    from touchMove_new_target [OF that(1) assms(1) this] ex
    show ?thesis by auto
  qed
  moreover have "\<not> list_ex (reportsTarget HDrop d) (newEffects w w2)"
    using touchEnd_drop_targets [OF t] ex
    by (auto simp: reportsTarget_iff)
  ultimately show ?thesis using ex u t by simp
qed

theorem dragged_element_never_target_witness:
  "isDragging started0 \<and> draggedElement started0 = Some tile0
   \<and> hidingWorks (page world0) tile0
   \<and> hitTest page0 5 5 = Some tile0
   \<and> moveTarget (touchEvent ''touchmove'' tile0 5 5) started0 (page world0) = Inr (Some zone0)
   \<and> \<not> list_ex (reportsTarget HDragOver tile0)
         (newEffects world0 (snd (snd (unifiedDragOver handlers0
            (touchEvent ''touchmove'' tile0 5 5) started0 world0))))
   \<and> fst (unifiedDragOver handlers0 (touchEvent ''touchmove'' tile0 5 5) started0 world0)
       = Returned
   \<and> currentDropTarget (fst (snd (unifiedDragOver handlers0
        (touchEvent ''touchmove'' tile0 5 5) started0 world0))) \<noteq> Some tile0
   \<and> \<not> list_ex (reportsTarget HDrop tile0)
         (newEffects world0 (snd (snd (touchEndHandler handlers0
            (touchEvent ''touchend'' tile0 5 5) started0 world0))))"
proof -
  let ?m = "touchEvent ''touchmove'' tile0 5 5"
  have p: "page world0 = page0" by (simp add: world0_def)
  have h: "hidingWorks (page world0) tile0" by (simp add: p hidingWorks_page0)
  have m: "moveTarget ?m started0 (page world0) = Inr (Some zone0)"
    by (simp add: p moveTarget_page0 started0_simps)
  have r: "fst (unifiedDragOver handlers0 ?m started0 world0) = Returned"
    by (simp add: unifiedDragOver_def etype_touchEvent Let_def coords_touchEvent
      page_preventDefault getElementFromPoint_at hitTest_page0_zone_at invoke_def
      handlers0_def quiet_def preventDefault_def started0_def world0_def)
  have e: "etype ?m = ''touchmove''" by (simp add: etype_touchEvent)
  from dragged_element_never_target [OF started0_simps(1,2) h, of ?m handlers0]
    dragged_element_never_target [OF started0_simps(1,2) h,
      of "touchEvent ''touchend'' tile0 5 5" handlers0]
    m r e started0_simps(1,2) hitTest_page0_tile h
  show ?thesis by blast
qed

text \<open>
  The claim as stated fails on a page where a style sheet rule
  \<^verbatim>\<open>display: block !important\<close> matches the dragged tile: the inline
  \<^verbatim>\<open>display: none\<close> does not hide it, the hit test under the finger returns the tile
  itself, and the over handler and the drop handler are called with the tile as target.
\<close>

theorem forced_display_counterexample:
  "isDragging started0 \<and> draggedElement started0 = Some tile0
   \<and> moveTarget (touchEvent ''touchmove'' tile0 5 5) started0 pageForced = Inr (Some tile0)
   \<and> list_ex (reportsTarget HDragOver tile0)
        (newEffects (world0\<lparr>page := pageForced\<rparr>)
           (snd (snd (unifiedDragOver handlers0 (touchEvent ''touchmove'' tile0 5 5) started0
              (world0\<lparr>page := pageForced\<rparr>)))))
   \<and> currentDropTarget (fst (snd (unifiedDragOver handlers0
        (touchEvent ''touchmove'' tile0 5 5) started0 (world0\<lparr>page := pageForced\<rparr>))))
       = Some tile0
   \<and> list_ex (reportsTarget HDrop tile0)
        (newEffects (world0\<lparr>page := pageForced\<rparr>)
           (snd (snd (touchEndHandler handlers0 (touchEvent ''touchend'' tile0 5 5) started0
              (world0\<lparr>page := pageForced\<rparr>)))))"
proof -
  have m: "moveTarget (touchEvent t tile0 5 5) started0 pageForced = Inr (Some tile0)" for t
    by (simp add: moveTarget_def coords_touchEvent started0_simps pageForced_hitTest)
  have u: "unifiedDragOver handlers0 (touchEvent ''touchmove'' tile0 5 5) started0
      (world0\<lparr>page := pageForced\<rparr>) =
     (Returned, started0\<lparr>currentDropTarget := Some tile0\<rparr>,
      \<lparr>page = pageForced,
       trace = [PreventDefault ''touchmove'',
          Invoked HDragOver (Synthetic \<lparr>stype = ''dragover'', starget = Some tile0,
            sclientX = Some 5, sclientY = Some 5, sgetData = None\<rparr>)]\<rparr>)"
    by (simp add: unifiedDragOver_def etype_touchEvent Let_def coords_touchEvent
      page_preventDefault started0_simps pageForced_hitTest invoke_def
      handlers0_def quiet_def preventDefault_def world0_def)
  have t: "touchEndHandler handlers0 (touchEvent ''touchend'' tile0 5 5) started0
      (world0\<lparr>page := pageForced\<rparr>) =
     (Returned, emptySession,
      \<lparr>page = pageForced,
       trace = [PreventDefault ''touchend'',
          Invoked HDrop (dropEvent (objectPrototype pageForced) started0 (Some tile0)
            (Some 5, Some 5)),
          Invoked HDragEnd (Synthetic \<lparr>stype = ''dragend'', starget = Some tile0,
            sclientX = None, sclientY = None, sgetData = None\<rparr>)]\<rparr>)"
    by (simp add: touchEndHandler_def etype_touchEvent Let_def coords_touchEvent
      page_preventDefault started0_simps pageForced_hitTest invoke_def
      handlers0_def quiet_def preventDefault_def world0_def emptySession_def)
  show ?thesis
    unfolding u t
    by (simp add: m started0_simps newEffects_def world0_def dropEvent_def)
qed

subsection \<open>Registration and removal\<close>

lemma foldl_addEventListener:
  "distinct xs \<Longrightarrow>
     foldl addEventListener ls xs = ls @ filter (\<lambda>x. x \<notin> set ls) xs"
proof (induction xs arbitrary: ls)
  case Nil
  then show ?case by simp
next
  case (Cons x xs)
  then have "filter (\<lambda>y. y \<notin> set (ls @ [x])) xs = filter (\<lambda>y. y \<notin> set ls) xs"
    by (auto intro: filter_cong)
  with Cons show ?case by (simp add: addEventListener_def)
qed

lemma foldl_removeEventListener:
  "foldl removeEventListener ls xs = filter (\<lambda>l. l \<notin> set xs) ls"
proof (induction xs arbitrary: ls)
  case Nil
  then show ?case by simp
next
  case (Cons x xs)
  have "removeAll x ls = filter (\<lambda>l. l \<noteq> x) ls"
    by (induction ls) auto
  with Cons show ?case by (auto simp: removeEventListener_def intro: filter_cong)
qed

lemma distinct_registrations: "distinct (registrations handlers n)"
  by (simp add: registrations_def split: option.splits)

lemma listeners_setup:
  "listeners (setupDragAndDrop handlers g) =
     listeners g @ filter (\<lambda>x. x \<notin> set (listeners g)) (registrations handlers (allocated g))"
  by (simp add: setupDragAndDrop_def foldl_addEventListener distinct_registrations)


lemma removeDragAndDrop_setup:
  "removeDragAndDrop (setupDragAndDrop handlers g) =
     \<lparr>listeners = filter (\<lambda>l. l \<notin> set (registrations handlers (allocated g)))
                    (listeners (setupDragAndDrop handlers g)),
      dragHandlers = None, allocated = Suc (allocated g)\<rparr>"
  by (simp add: removeDragAndDrop_def foldl_removeEventListener setupDragAndDrop_def)

lemma removeDragAndDrop_unregistered:
  "dragHandlers g = None \<Longrightarrow> removeDragAndDrop g = g"
  by (simp add: removeDragAndDrop_def)

lemma dragHandlers_removeDragAndDrop: "dragHandlers (removeDragAndDrop g) = None"
  by (simp add: removeDragAndDrop_def split: option.splits)

text \<open>
  C9. Teardown is safe and idempotent. With nothing registered it leaves the registry as it
  is; a second teardown in a row changes nothing; and after a setup followed by a teardown
  none of the listeners that setup registers is in the listener list.
\<close>

theorem teardown_safe:
  "removeDragAndDrop (g\<lparr>dragHandlers := None\<rparr>) = g\<lparr>dragHandlers := None\<rparr>
   \<and> removeDragAndDrop (removeDragAndDrop g) = removeDragAndDrop g
   \<and> set (listeners (removeDragAndDrop (setupDragAndDrop handlers g)))
       \<inter> set (registrations handlers (allocated g)) = {}
   \<and> removeDragAndDrop (removeDragAndDrop (setupDragAndDrop handlers emptyRegistry))
       = removeDragAndDrop (setupDragAndDrop handlers emptyRegistry)
   \<and> listeners (removeDragAndDrop (setupDragAndDrop handlers emptyRegistry)) = []
   \<and> dragHandlers (removeDragAndDrop (setupDragAndDrop handlers emptyRegistry)) = None"
proof -
  have idem: "removeDragAndDrop (removeDragAndDrop g') = removeDragAndDrop g'" for g' :: "'a registry"
    using removeDragAndDrop_unregistered [OF dragHandlers_removeDragAndDrop] .
  have "set (listeners (removeDragAndDrop (setupDragAndDrop handlers g)))
       \<inter> set (registrations handlers (allocated g)) = {}"
    by (auto simp: removeDragAndDrop_setup)
  moreover have "listeners (removeDragAndDrop (setupDragAndDrop handlers emptyRegistry)) = []"
    by (simp add: removeDragAndDrop_setup listeners_setup emptyRegistry_def)
  ultimately show ?thesis
    by (simp add: idem removeDragAndDrop_unregistered dragHandlers_removeDragAndDrop)
qed












text \<open>
  When none of the listeners a setup registers was in the list before, setup followed by
  teardown gives the listener list back as it was.
\<close>

lemma setup_teardown_restores:
  assumes "set (listeners g) \<inter> set (registrations handlers (allocated g)) = {}"
  shows "listeners (removeDragAndDrop (setupDragAndDrop handlers g)) = listeners g"
proof -
  have "filter (\<lambda>l. l \<notin> set (registrations handlers (allocated g))) (listeners g) = listeners g"
    using assms by (auto simp: filter_id_conv)
  moreover have "filter (\<lambda>l. l \<notin> set (registrations handlers (allocated g)))
      (filter (\<lambda>x. x \<notin> set (listeners g)) (registrations handlers (allocated g))) = []"
    by (auto simp: filter_empty_conv)
  ultimately show ?thesis
    by (simp add: removeDragAndDrop_setup listeners_setup)
qed

end
